theory Spec2Isabelle
  imports Complex_Main "HOL-Library.Log_Nat"
begin

section \<open>Scope\<close>

text \<open>
  The store's cloud functions exist in three revisions: the callable handlers (\<^verbatim>\<open>onCall\<close>)
  at the start of \<^verbatim>\<open>functions/src/index.ts\<close>, and two revisions of the same handlers as
  HTTP endpoints (\<^verbatim>\<open>onRequest\<close>). This theory models the callable handlers of the carts
  and of the products, with the helpers they call, and the number validators of the last
  HTTP revision.
\<close>

section \<open>JavaScript numbers\<close>

text \<open>
  The handlers receive \<^verbatim>\<open>price\<close>, \<^verbatim>\<open>stock\<close> and \<^verbatim>\<open>quantity\<close> as values of the
  TypeScript type \<^verbatim>\<open>number\<close>. A \<^verbatim>\<open>number\<close> is a finite value, one of the two
  infinities, or NaN. Finite values are modelled as rationals (every finite double is one;
  the two zeros are identified). Comparison follows the language: every comparison with NaN
  is false. Addition is the addition of doubles: the exact sum, rounded to the nearest
  double, ties to the even significand, and to an infinity beyond the largest double.
\<close>

datatype jsnum = Fin rat | PosInf | NegInf | NaN

text \<open>\<^verbatim>\<open>a < b\<close>\<close>

fun js_lt :: "jsnum \<Rightarrow> jsnum \<Rightarrow> bool" where
  "js_lt (Fin a) (Fin b) = (a < b)"
| "js_lt (Fin a) PosInf = True"
| "js_lt (Fin a) NegInf = False"
| "js_lt (Fin a) NaN = False"
| "js_lt PosInf b = False"
| "js_lt NegInf (Fin b) = True"
| "js_lt NegInf PosInf = True"
| "js_lt NegInf NegInf = False"
| "js_lt NegInf NaN = False"
| "js_lt NaN b = False"

text \<open>\<^verbatim>\<open>a <= b\<close>\<close>

fun js_le :: "jsnum \<Rightarrow> jsnum \<Rightarrow> bool" where
  "js_le (Fin a) (Fin b) = (a \<le> b)"
| "js_le (Fin a) PosInf = True"
| "js_le (Fin a) NegInf = False"
| "js_le (Fin a) NaN = False"
| "js_le PosInf (Fin b) = False"
| "js_le PosInf PosInf = True"
| "js_le PosInf NegInf = False"
| "js_le PosInf NaN = False"
| "js_le NegInf (Fin b) = True"
| "js_le NegInf PosInf = True"
| "js_le NegInf NegInf = True"
| "js_le NegInf NaN = False"
| "js_le NaN b = False"

text \<open>\<^verbatim>\<open>a > b\<close> is \<^verbatim>\<open>b < a\<close>.\<close>

definition js_gt :: "jsnum \<Rightarrow> jsnum \<Rightarrow> bool" where
  "js_gt a b = js_lt b a"

text \<open>A number used as a condition (\<^verbatim>\<open>!x\<close>, \<^verbatim>\<open>x && ...\<close>): zero and NaN are falsy.\<close>

definition js_truthy :: "jsnum \<Rightarrow> bool" where
  "js_truthy x = (x \<noteq> Fin 0 \<and> x \<noteq> NaN)"

text \<open>
  Rounding to a double. \<open>floor_log2 x\<close> is the binary exponent of a positive number:
  the \<open>e\<close> with \<open>2 ^ e \<le> x < 2 ^ (e + 1)\<close>.
\<close>

definition floor_log2 :: "rat \<Rightarrow> int" where
  "floor_log2 x = (if 1 \<le> x then bitlen \<lfloor>x\<rfloor> - 1 else - bitlen (\<lceil>1 / x\<rceil> - 1))"

text \<open>The nearest integer, the even one of the two when they are equally near.\<close>

definition round_half_even :: "rat \<Rightarrow> int" where
  "round_half_even x =
     (let f = \<lfloor>x\<rfloor>; d = x - of_int f
      in if d < 1 / 2 then f else if 1 / 2 < d then f + 1 else if even f then f else f + 1)"

text \<open>
  The double nearest to a number (IEEE 754 binary64, round to nearest, ties to even). The
  doubles around \<open>x\<close> are the multiples of \<open>2 ^ (e - 52)\<close>, where \<open>e\<close> is the
  exponent of \<open>x\<close> and at least \<open>- 1022\<close> (below that the numbers are subnormal); a
  result of \<open>2 ^ 1024\<close> or more is an infinity.
\<close>

definition to_double :: "rat \<Rightarrow> jsnum" where
  "to_double x =
     (if x = 0 then Fin 0
      else
        let e = max (floor_log2 \<bar>x\<bar>) (- 1022);
            q = 2 powi (e - 52);
            y = of_int (round_half_even (x / q)) * q
        in if 2 ^ 1024 \<le> \<bar>y\<bar> then (if 0 < x then PosInf else NegInf) else Fin y)"

text \<open>\<^verbatim>\<open>a + b\<close>\<close>

fun js_add :: "jsnum \<Rightarrow> jsnum \<Rightarrow> jsnum" where
  "js_add (Fin a) (Fin b) = to_double (a + b)"
| "js_add (Fin a) PosInf = PosInf"
| "js_add (Fin a) NegInf = NegInf"
| "js_add (Fin a) NaN = NaN"
| "js_add PosInf (Fin b) = PosInf"
| "js_add PosInf PosInf = PosInf"
| "js_add PosInf NegInf = NaN"
| "js_add PosInf NaN = NaN"
| "js_add NegInf (Fin b) = NegInf"
| "js_add NegInf PosInf = NaN"
| "js_add NegInf NegInf = NegInf"
| "js_add NegInf NaN = NaN"
| "js_add NaN b = NaN"

text \<open>A number that is an integer (\<^verbatim>\<open>Number.isInteger\<close>).\<close>

definition js_is_integer :: "jsnum \<Rightarrow> bool" where
  "js_is_integer x = (case x of Fin r \<Rightarrow> r = of_int \<lfloor>r\<rfloor> | _ \<Rightarrow> False)"

section \<open>Errors and documents\<close>

text \<open>
  The codes of \<^verbatim>\<open>HttpsError\<close> that the callable handlers throw, and \<^verbatim>\<open>internal\<close>, which
  \<^verbatim>\<open>onCall\<close> answers when a handler throws anything that is not an \<^verbatim>\<open>HttpsError\<close>.
\<close>

datatype FunctionsErrorCode =
  unauthenticated | invalid_argument | not_found | unavailable | permission_denied | internal

datatype HttpsError = HttpsError (code: FunctionsErrorCode) (message: string)

text \<open>
  A handler either throws an \<^verbatim>\<open>HttpsError\<close> or returns. \<open>andThen\<close> sequences two steps:
  the second runs only when the first did not throw.
\<close>

definition andThen :: "HttpsError + 'a \<Rightarrow> ('a \<Rightarrow> HttpsError + 'b) \<Rightarrow> HttpsError + 'b" where
  "andThen r f = (case r of Inl e \<Rightarrow> Inl e | Inr x \<Rightarrow> f x)"

record AuthData =
  uid :: string

record ProductData =
  title :: string
  description :: string
  price :: jsnum
  stock :: jsnum
  active :: bool
  brand :: string
  tags :: "string list"
  owner :: string
  image_url :: string

text \<open>
  One entry of \<^verbatim>\<open>CartData.products\<close>: \<^verbatim>\<open>{id, price, quantity}\<close>. The fields \<^verbatim>\<open>id\<close> and
  \<^verbatim>\<open>price\<close> are named \<open>item_id\<close> and \<open>item_price\<close> here (\<open>id\<close> is the identity
  function of HOL, \<open>price\<close> the field of a product).
\<close>

record CartItem =
  item_id :: string
  item_price :: jsnum
  quantity :: jsnum

text \<open>
  \<^verbatim>\<open>CartData\<close>; its field \<^verbatim>\<open>owner\<close> is named \<open>cart_owner\<close>. The object
  \<^verbatim>\<open>products\<close> is a map from product IDs to entries: its own properties.
\<close>

record CartData =
  cart_owner :: string
  status :: string
  products :: "string \<rightharpoonup> CartItem"

text \<open>
  The Firestore database: the collection \<^verbatim>\<open>carts\<close> and the collection \<^verbatim>\<open>products\<close>
  (named \<open>catalog\<close> here, \<open>products\<close> being the entries of a cart).
  Product documents are read by ID, so that collection is a map. Cart documents are
  created with \<^verbatim>\<open>add\<close>, which gives each one a new ID, are never deleted, and are found by
  a query: the collection is the list of its documents and the ID of a document is its
  position. A query returns the matching documents in the order of their IDs. (The IDs that
  Firestore generates are random, so a new document can come anywhere in that order; the
  order matters only while one owner has several pending carts.)
\<close>

record Firestore =
  carts :: "CartData list"
  catalog :: "string \<rightharpoonup> ProductData"

section \<open>Helpers of the handlers\<close>

text \<open>
  \<^verbatim>\<open>checkAuth\<close>: the caller's ID, or \<^verbatim>\<open>unauthenticated\<close> when there is no caller or
  its ID is empty.
\<close>

definition checkAuth :: "AuthData option \<Rightarrow> HttpsError + string" where
  "checkAuth auth =
     (case auth of
        None \<Rightarrow> Inl (HttpsError unauthenticated ''User must be authenticated'')
      | Some a \<Rightarrow>
          if uid a = [] then Inl (HttpsError unauthenticated ''User must be authenticated'')
          else Inr (uid a))"

text \<open>
  \<^verbatim>\<open>getCurrentPendingCartRef\<close>: the query
  \<^verbatim>\<open>where('owner', '==', userId).where('status', '==', 'pending')\<close> on the carts; the
  snapshot's \<^verbatim>\<open>docs\<close>, each with its reference (the position) and its data.
\<close>

definition getCurrentPendingCartRef :: "Firestore \<Rightarrow> string \<Rightarrow> (nat \<times> CartData) list" where
  "getCurrentPendingCartRef fs userId =
     filter (\<lambda>(ref, cartData). cart_owner cartData = userId \<and> status cartData = ''pending'')
       (enumerate 0 (carts fs))"

text \<open>\<^verbatim>\<open>getProductDataById\<close>\<close>

definition getProductDataById :: "Firestore \<Rightarrow> string \<Rightarrow> HttpsError + ProductData" where
  "getProductDataById fs productId =
     (case catalog fs productId of
        None \<Rightarrow> Inl (HttpsError not_found ''Product not found'')
      | Some productData \<Rightarrow> Inr productData)"

text \<open>\<^verbatim>\<open>checkProductActive\<close>\<close>

definition checkProductActive :: "ProductData \<Rightarrow> HttpsError + unit" where
  "checkProductActive productData =
     (if \<not> active productData
      then Inl (HttpsError unavailable ''This product is currently unavailable'')
      else Inr ())"

text \<open>\<^verbatim>\<open>checkProductStock\<close>\<close>

definition checkProductStock :: "ProductData \<Rightarrow> jsnum \<Rightarrow> HttpsError + unit" where
  "checkProductStock productData qty =
     (if js_le (stock productData) (Fin 0)
      then Inl (HttpsError unavailable ''This product is out of stock'')
      else if js_truthy qty \<and> js_lt (stock productData) qty
      then Inl (HttpsError unavailable ''Not enough stock available'')
      else Inr ())"

text \<open>
  \<^verbatim>\<open>String.prototype.trim\<close> on a string of ASCII characters: the white space and line
  terminators among them are tab, line feed, vertical tab, form feed, carriage return and
  space. (The white space of Unicode beyond ASCII is not modelled.)
\<close>

definition is_white_space :: "char \<Rightarrow> bool" where
  "is_white_space c = (c \<in> set [CHR 0x09, CHR 0x0A, CHR 0x0B, CHR 0x0C, CHR 0x0D, CHR 0x20])"

definition trim :: "string \<Rightarrow> string" where
  "trim s = rev (dropWhile is_white_space (rev (dropWhile is_white_space s)))"

text \<open>\<^verbatim>\<open>validateEmptyStringField\<close>\<close>

definition validateEmptyStringField :: "string \<Rightarrow> string \<Rightarrow> HttpsError + unit" where
  "validateEmptyStringField fieldValue fieldName =
     (if fieldValue = [] \<or> trim fieldValue = []
      then Inl (HttpsError invalid_argument (fieldName @ '' must be a non-empty string''))
      else Inr ())"

text \<open>\<^verbatim>\<open>validatePositiveNumberField\<close>\<close>

definition validatePositiveNumberField :: "jsnum \<Rightarrow> string \<Rightarrow> HttpsError + unit" where
  "validatePositiveNumberField fieldValue fieldName =
     (if \<not> js_truthy fieldValue \<or> js_le fieldValue (Fin 0)
      then Inl (HttpsError invalid_argument (fieldName @ '' must be a positive number''))
      else Inr ())"

section \<open>Property reads\<close>

text \<open>
  The entries of a cart come from Firestore as a plain object, and \<^verbatim>\<open>obj[name]\<close> on a
  plain object finds its own properties and the ones that every object inherits from
  \<^verbatim>\<open>Object.prototype\<close>. These are their names.
\<close>

definition object_prototype_names :: "string list" where
  "object_prototype_names =
     [''constructor'', ''hasOwnProperty'', ''isPrototypeOf'', ''propertyIsEnumerable'',
      ''toLocaleString'', ''toString'', ''valueOf'', ''__defineGetter__'', ''__defineSetter__'',
      ''__lookupGetter__'', ''__lookupSetter__'', ''__proto__'']"

text \<open>
  \<^verbatim>\<open>obj[name]\<close> as a condition: true for an entry of the object (an entry is an object)
  and for an inherited property (a function, or the prototype itself for
  \<^verbatim>\<open>__proto__\<close>), false otherwise (\<^verbatim>\<open>undefined\<close>).
\<close>

definition has_property :: "(string \<rightharpoonup> 'a) \<Rightarrow> string \<Rightarrow> bool" where
  "has_property obj name = (obj name \<noteq> None \<or> name \<in> set object_prototype_names)"

section \<open>The cart handlers\<close>

text \<open>
  Each handler takes the database, the caller (\<^verbatim>\<open>auth\<close>) and the fields of \<^verbatim>\<open>data\<close>, and
  returns the thrown \<^verbatim>\<open>HttpsError\<close>, or its answer and the database after its write. Every
  \<^verbatim>\<open>throw\<close> of a handler comes before its only write, so a handler that throws leaves the
  database as it was.
\<close>

text \<open>
  The last block of \<^verbatim>\<open>add_product_to_cart\<close> (\<^verbatim>\<open>if (cartSnapshot.empty) ... else ...\<close>):
  with no pending cart in the snapshot a new cart is added; otherwise the entries of the
  snapshot's first cart are copied, the entry of the product is incremented or inserted,
  and the document of that cart is updated. The write goes to the database \<open>fs\<close> as it is
  when the write happens; the entries come from the snapshot. The read
  \<^verbatim>\<open>cartData.products[productId]\<close> is taken on the entries of the cart: this block runs
  for the ID of a product document that has just been read, and product documents get
  their IDs from \<^verbatim>\<open>add\<close>, not the name of an inherited property.
\<close>

definition write_cart_line ::
  "Firestore \<Rightarrow> string \<Rightarrow> string \<Rightarrow> jsnum \<Rightarrow> (nat \<times> CartData) list \<Rightarrow> ProductData \<Rightarrow> string \<times> Firestore" where
  "write_cart_line fs userId productId qty cartSnapshot productData =
     (case cartSnapshot of
        [] \<Rightarrow>
          let newCart = \<lparr>cart_owner = userId, status = ''pending'',
                products = [productId \<mapsto>
                  \<lparr>item_id = productId, item_price = price productData, quantity = qty\<rparr>]\<rparr>
          in (''Product added to cart successfully'', fs\<lparr>carts := carts fs @ [newCart]\<rparr>)
      | (ref, cartData) # _ \<Rightarrow>
          let updatedProducts =
                (case products cartData productId of
                   Some existingProduct \<Rightarrow>
                     (products cartData)(productId \<mapsto>
                        existingProduct\<lparr>quantity := js_add (quantity existingProduct) qty\<rparr>)
                 | None \<Rightarrow>
                     (products cartData)(productId \<mapsto>
                        \<lparr>item_id = productId, item_price = price productData, quantity = qty\<rparr>))
          in (''Product added to cart successfully'',
              fs\<lparr>carts := (carts fs)[ref := (carts fs ! ref)\<lparr>products := updatedProducts\<rparr>]\<rparr>))"

text \<open>\<^verbatim>\<open>add_product_to_cart\<close>\<close>

definition add_product_to_cart ::
  "Firestore \<Rightarrow> AuthData option \<Rightarrow> string \<Rightarrow> jsnum \<Rightarrow> HttpsError + (string \<times> Firestore)" where
  "add_product_to_cart fs auth productId qty =
     andThen (checkAuth auth) (\<lambda>userId.
     andThen (validateEmptyStringField productId ''Product ID'') (\<lambda>_.
     andThen (validatePositiveNumberField qty ''Quantity'') (\<lambda>_.
     let cartSnapshot = getCurrentPendingCartRef fs userId in
     andThen (getProductDataById fs productId) (\<lambda>productData.
     andThen (checkProductActive productData) (\<lambda>_.
     andThen (checkProductStock productData qty) (\<lambda>_.
     Inr (write_cart_line fs userId productId qty cartSnapshot productData)))))))"

text \<open>
  \<^verbatim>\<open>remove_product_from_cart\<close>. The test \<^verbatim>\<open>!cartData?.products[productId]\<close> is a
  property read; \<^verbatim>\<open>delete\<close> on the copy of the entries removes an own entry and does
  nothing for an inherited property.
\<close>

definition remove_product_from_cart ::
  "Firestore \<Rightarrow> AuthData option \<Rightarrow> string \<Rightarrow> HttpsError + (string \<times> Firestore)" where
  "remove_product_from_cart fs auth productId =
     andThen (checkAuth auth) (\<lambda>userId.
     andThen (validateEmptyStringField productId ''Product ID'') (\<lambda>_.
     (case getCurrentPendingCartRef fs userId of
        [] \<Rightarrow> Inl (HttpsError not_found ''No pending cart found for this user'')
      | (ref, cartData) # _ \<Rightarrow>
          if \<not> has_property (products cartData) productId
          then Inl (HttpsError not_found ''Product not found in the cart'')
          else
            let updatedProducts = (products cartData)(productId := None)
            in Inr (''Product removed from cart successfully'',
                    fs\<lparr>carts := (carts fs)[ref := (carts fs ! ref)\<lparr>products := updatedProducts\<rparr>]\<rparr>))))"

text \<open>
  \<^verbatim>\<open>update_product_quantity_in_cart\<close>, with the same property read. The assignment
  \<^verbatim>\<open>updatedProducts[productId].quantity = quantity\<close> changes the entry of the product;
  for an inherited property it lands on a built-in object of the process, which is not part
  of the database, and the entries are written back as they were.
\<close>

definition update_product_quantity_in_cart ::
  "Firestore \<Rightarrow> AuthData option \<Rightarrow> string \<Rightarrow> jsnum \<Rightarrow> HttpsError + (string \<times> Firestore)" where
  "update_product_quantity_in_cart fs auth productId qty =
     andThen (checkAuth auth) (\<lambda>userId.
     andThen (validateEmptyStringField productId ''Product ID'') (\<lambda>_.
     andThen (validatePositiveNumberField qty ''Quantity'') (\<lambda>_.
     (case getCurrentPendingCartRef fs userId of
        [] \<Rightarrow> Inl (HttpsError not_found ''No pending cart found for this user'')
      | (ref, cartData) # _ \<Rightarrow>
          if \<not> has_property (products cartData) productId
          then Inl (HttpsError not_found ''Product not found in the cart'')
          else
            andThen (getProductDataById fs productId) (\<lambda>productData.
            andThen (checkProductActive productData) (\<lambda>_.
            andThen (checkProductStock productData qty) (\<lambda>_.
            let updatedProducts =
                  (case products cartData productId of
                     Some existingProduct \<Rightarrow>
                       (products cartData)(productId \<mapsto> existingProduct\<lparr>quantity := qty\<rparr>)
                   | None \<Rightarrow> products cartData)
            in Inr (''Product quantity updated successfully.'',
                    fs\<lparr>carts := (carts fs)[ref := (carts fs ! ref)\<lparr>products := updatedProducts\<rparr>]\<rparr>))))))))"

text \<open>\<^verbatim>\<open>get_cart\<close>\<close>

definition get_cart :: "Firestore \<Rightarrow> AuthData option \<Rightarrow> HttpsError + CartData" where
  "get_cart fs auth =
     andThen (checkAuth auth) (\<lambda>userId.
     (case getCurrentPendingCartRef fs userId of
        [] \<Rightarrow> Inl (HttpsError not_found ''No pending cart found for this user.'')
      | (ref, cartData) # _ \<Rightarrow> Inr cartData))"

text \<open>\<^verbatim>\<open>clear_cart\<close>\<close>

definition clear_cart :: "Firestore \<Rightarrow> AuthData option \<Rightarrow> HttpsError + (string \<times> Firestore)" where
  "clear_cart fs auth =
     andThen (checkAuth auth) (\<lambda>userId.
     (case getCurrentPendingCartRef fs userId of
        [] \<Rightarrow> Inl (HttpsError not_found ''No pending cart found for this user.'')
      | (ref, cartData) # _ \<Rightarrow>
          Inr (''Cart cleared successfully.'',
               fs\<lparr>carts := (carts fs)[ref := (carts fs ! ref)\<lparr>products := Map.empty\<rparr>]\<rparr>)))"

text \<open>\<^verbatim>\<open>checkout_cart\<close>\<close>

definition checkout_cart :: "Firestore \<Rightarrow> AuthData option \<Rightarrow> HttpsError + (string \<times> Firestore)" where
  "checkout_cart fs auth =
     andThen (checkAuth auth) (\<lambda>userId.
     (case getCurrentPendingCartRef fs userId of
        [] \<Rightarrow> Inl (HttpsError not_found ''No pending cart found for this user.'')
      | (ref, cartData) # _ \<Rightarrow>
          Inr (''Checkout completed successfully.'',
               fs\<lparr>carts := (carts fs)[ref := (carts fs ! ref)\<lparr>status := ''completed''\<rparr>]\<rparr>)))"

section \<open>The product handlers\<close>

text \<open>\<^verbatim>\<open>get_product_by_id\<close>: the answer is \<^verbatim>\<open>{id: productRef.id, ...productData}\<close>.\<close>

definition get_product_by_id ::
  "Firestore \<Rightarrow> AuthData option \<Rightarrow> string \<Rightarrow> HttpsError + (string \<times> ProductData)" where
  "get_product_by_id fs auth productId =
     andThen (checkAuth auth) (\<lambda>userId.
     andThen (validateEmptyStringField productId ''Product ID'') (\<lambda>_.
     andThen (getProductDataById fs productId) (\<lambda>productData.
     andThen (if owner productData \<noteq> userId then checkProductActive productData else Inr ()) (\<lambda>_.
     Inr (productId, productData)))))"

text \<open>
  \<^verbatim>\<open>UpdateProductData\<close> without its \<^verbatim>\<open>productId\<close>: each optional field is given or
  \<^verbatim>\<open>undefined\<close>.
\<close>

record UpdateProductData =
  new_title :: "string option"
  new_description :: "string option"
  new_price :: "jsnum option"
  new_stock :: "jsnum option"
  new_active :: "bool option"
  new_brand :: "string option"
  new_tags :: "string list option"
  new_image_url :: "string option"

text \<open>\<^verbatim>\<open>productRef.update({...updates})\<close>: the fields that are given replace the stored ones.\<close>

definition apply_updates :: "UpdateProductData \<Rightarrow> ProductData \<Rightarrow> ProductData" where
  "apply_updates u p =
     \<lparr>title = (case new_title u of Some v \<Rightarrow> v | None \<Rightarrow> title p),
      description = (case new_description u of Some v \<Rightarrow> v | None \<Rightarrow> description p),
      price = (case new_price u of Some v \<Rightarrow> v | None \<Rightarrow> price p),
      stock = (case new_stock u of Some v \<Rightarrow> v | None \<Rightarrow> stock p),
      active = (case new_active u of Some v \<Rightarrow> v | None \<Rightarrow> active p),
      brand = (case new_brand u of Some v \<Rightarrow> v | None \<Rightarrow> brand p),
      tags = (case new_tags u of Some v \<Rightarrow> v | None \<Rightarrow> tags p),
      owner = owner p,
      image_url = (case new_image_url u of Some v \<Rightarrow> v | None \<Rightarrow> image_url p)\<rparr>"

definition no_updates :: "UpdateProductData \<Rightarrow> bool" where
  "no_updates u =
     (new_title u = None \<and> new_description u = None \<and> new_price u = None \<and> new_stock u = None \<and>
      new_active u = None \<and> new_brand u = None \<and> new_tags u = None \<and> new_image_url u = None)"

text \<open>
  \<^verbatim>\<open>update_product\<close>. The owner is compared after \<^verbatim>\<open>updates\<close> is built and before the
  write. Firestore's \<^verbatim>\<open>update\<close> refuses an object with no field (``At least one field must
  be updated''), which the caller sees as \<^verbatim>\<open>internal\<close>.
\<close>

definition update_product ::
  "Firestore \<Rightarrow> AuthData option \<Rightarrow> string \<Rightarrow> UpdateProductData \<Rightarrow> HttpsError + (string \<times> Firestore)" where
  "update_product fs auth productId updates =
     andThen (checkAuth auth) (\<lambda>userId.
     andThen (validateEmptyStringField productId ''Product ID'') (\<lambda>_.
     andThen (getProductDataById fs productId) (\<lambda>productData.
     if owner productData \<noteq> userId
     then Inl (HttpsError permission_denied ''You are not the owner of this product.'')
     else if no_updates updates then Inl (HttpsError internal ''INTERNAL'')
     else Inr (''Product updated successfully.'',
               fs\<lparr>catalog := (catalog fs)(productId \<mapsto> apply_updates updates productData)\<rparr>))))"

text \<open>\<^verbatim>\<open>remove_product\<close>\<close>

definition remove_product ::
  "Firestore \<Rightarrow> AuthData option \<Rightarrow> string \<Rightarrow> HttpsError + (string \<times> Firestore)" where
  "remove_product fs auth productId =
     andThen (checkAuth auth) (\<lambda>userId.
     andThen (validateEmptyStringField productId ''Product ID'') (\<lambda>_.
     andThen (getProductDataById fs productId) (\<lambda>productData.
     if owner productData \<noteq> userId
     then Inl (HttpsError permission_denied ''You are not the owner of this product.'')
     else Inr (''Product removed successfully.'',
               fs\<lparr>catalog := (catalog fs)(productId := None)\<rparr>))))"

section \<open>Sequences of cart operations\<close>

text \<open>The entry of a product in the caller's pending cart, as \<^verbatim>\<open>get_cart\<close> returns it.\<close>

definition cart_line :: "Firestore \<Rightarrow> AuthData option \<Rightarrow> string \<Rightarrow> CartItem option" where
  "cart_line fs auth productId =
     (case get_cart fs auth of Inl e \<Rightarrow> None | Inr cartData \<Rightarrow> products cartData productId)"

text \<open>The database after a call: the one the handler returns, or the old one when it threw.\<close>

definition after :: "Firestore \<Rightarrow> HttpsError + ('a \<times> Firestore) \<Rightarrow> Firestore" where
  "after fs r = (case r of Inl e \<Rightarrow> fs | Inr (x, fs') \<Rightarrow> fs')"

datatype CartOp =
    AddLine string jsnum
  | UpdateLineQuantity string jsnum
  | RemoveLine string
  | ClearCart
  | Checkout
  | GetCart

fun perform :: "AuthData option \<Rightarrow> Firestore \<Rightarrow> CartOp \<Rightarrow> Firestore" where
  "perform auth fs (AddLine productId qty) = after fs (add_product_to_cart fs auth productId qty)"
| "perform auth fs (UpdateLineQuantity productId qty) =
     after fs (update_product_quantity_in_cart fs auth productId qty)"
| "perform auth fs (RemoveLine productId) = after fs (remove_product_from_cart fs auth productId)"
| "perform auth fs ClearCart = after fs (clear_cart fs auth)"
| "perform auth fs Checkout = after fs (checkout_cart fs auth)"
| "perform auth fs GetCart = fs"

text \<open>The calls of one caller, one after the other.\<close>

definition perform_all :: "AuthData option \<Rightarrow> Firestore \<Rightarrow> CartOp list \<Rightarrow> Firestore" where
  "perform_all auth fs ops = foldl (perform auth) fs ops"

text \<open>Calls of \<^verbatim>\<open>add_product_to_cart\<close> for one product, one after the other.\<close>

definition add_lines :: "Firestore \<Rightarrow> AuthData option \<Rightarrow> string \<Rightarrow> jsnum list \<Rightarrow> Firestore" where
  "add_lines fs auth productId qs =
     foldl (\<lambda>s q. after s (add_product_to_cart s auth productId q)) fs qs"

text \<open>
  The sum of the quantities as calls that follow each other build it: the first call
  stores its quantity and every later call adds its own with \<^verbatim>\<open>+=\<close>.
\<close>

fun js_sum :: "jsnum list \<Rightarrow> jsnum" where
  "js_sum [] = Fin 0"
| "js_sum (q # qs) = foldl js_add q qs"

section \<open>Calls of \<^verbatim>\<open>add_product_to_cart\<close> that overlap\<close>

text \<open>
  \<^verbatim>\<open>add_product_to_cart\<close> reaches the database three times, each time behind an
  \<^verbatim>\<open>await\<close>: the query for the pending cart, the read of the product, and the write. No
  transaction joins them, so the calls of other requests can run between two of them. A
  call in progress is what it holds in its local variables.
\<close>

datatype AddCall =
    Started "AuthData option" string jsnum
  | Queried string string jsnum "(nat \<times> CartData) list"
  | Resolved string string jsnum "(nat \<times> CartData) list" ProductData
  | Finished "HttpsError + string"

text \<open>One access of a call to the database, with the code that runs before the next one.\<close>

fun add_step :: "Firestore \<Rightarrow> AddCall \<Rightarrow> AddCall \<times> Firestore" where
  "add_step fs (Started auth productId qty) =
     (case andThen (checkAuth auth) (\<lambda>userId.
           andThen (validateEmptyStringField productId ''Product ID'') (\<lambda>_.
           andThen (validatePositiveNumberField qty ''Quantity'') (\<lambda>_. Inr userId))) of
        Inl e \<Rightarrow> (Finished (Inl e), fs)
      | Inr userId \<Rightarrow> (Queried userId productId qty (getCurrentPendingCartRef fs userId), fs))"
| "add_step fs (Queried userId productId qty cartSnapshot) =
     (case getProductDataById fs productId of
        Inl e \<Rightarrow> (Finished (Inl e), fs)
      | Inr productData \<Rightarrow> (Resolved userId productId qty cartSnapshot productData, fs))"
| "add_step fs (Resolved userId productId qty cartSnapshot productData) =
     (case andThen (checkProductActive productData) (\<lambda>_. checkProductStock productData qty) of
        Inl e \<Rightarrow> (Finished (Inl e), fs)
      | Inr _ \<Rightarrow>
          (case write_cart_line fs userId productId qty cartSnapshot productData of
             (msg, fs') \<Rightarrow> (Finished (Inr msg), fs')))"
| "add_step fs (Finished r) = (Finished r, fs)"

text \<open>
  A schedule names, step by step, the call that makes its next access. \<open>interleave\<close>
  runs the calls on the shared database in that order.
\<close>

fun interleave :: "nat list \<Rightarrow> AddCall list \<times> Firestore \<Rightarrow> AddCall list \<times> Firestore" where
  "interleave [] cfg = cfg"
| "interleave (i # sched) (calls, fs) =
     (if i < length calls
      then (case add_step fs (calls ! i) of
              (call', fs') \<Rightarrow> interleave sched (calls[i := call'], fs'))
      else interleave sched (calls, fs))"

text \<open>
  The schedule of \<open>n\<close> calls that do not overlap: each call makes its three accesses
  before the next call starts.
\<close>

definition serial :: "nat \<Rightarrow> nat list" where
  "serial n = concat (map (\<lambda>i. [i, i, i]) [0..<n])"

section \<open>The validators of the HTTP revision\<close>

text \<open>
  The later revision of the handlers (\<^verbatim>\<open>onRequest\<close>) validates the fields of the request
  body, which are values of any type, and throws \<^verbatim>\<open>HTTPError(message, statusCode)\<close>.
  \<open>JObject\<close> stands for every array and object.
\<close>

datatype jsval = JUndefined | JNull | JBoolean bool | JNumber jsnum | JString string | JObject

datatype HTTPError = HTTPError string nat

text \<open>\<^verbatim>\<open>validateNumberField\<close>: \<^verbatim>\<open>typeof fieldValue !== 'number'\<close>\<close>

definition validateNumberField :: "jsval \<Rightarrow> string \<Rightarrow> HTTPError + unit" where
  "validateNumberField fieldValue fieldName =
     (case fieldValue of
        JNumber n \<Rightarrow> Inr ()
      | _ \<Rightarrow> Inl (HTTPError (fieldName @ '' must be a number'') 400))"

text \<open>\<^verbatim>\<open>validatePositiveNonZeroNumberField\<close>\<close>

definition validatePositiveNonZeroNumberField :: "jsval \<Rightarrow> string \<Rightarrow> HTTPError + unit" where
  "validatePositiveNonZeroNumberField fieldValue fieldName =
     (case validateNumberField fieldValue fieldName of
        Inl e \<Rightarrow> Inl e
      | Inr _ \<Rightarrow>
          (case fieldValue of
             JNumber n \<Rightarrow>
               if js_le n (Fin 0) \<or> n = PosInf
               then Inl (HTTPError (fieldName @ '' must be a positive non-zero number'') 400)
               else Inr ()
           | _ \<Rightarrow> Inr ()))"

section \<open>An example database\<close>

definition civic :: ProductData where
  "civic = \<lparr>title = ''Civic'', description = ''Sedan'', price = Fin 10, stock = Fin 5,
     active = True, brand = ''Honda'', tags = [''car''], owner = ''seller'',
     image_url = ''civic.png''\<rparr>"

text \<open>A product that its owner has taken off the market.\<close>

definition accord :: ProductData where
  "accord = \<lparr>title = ''Accord'', description = ''Sedan'', price = Fin 12, stock = Fin 3,
     active = False, brand = ''Honda'', tags = [''car''], owner = ''seller'',
     image_url = ''accord.png''\<rparr>"

definition shop :: Firestore where
  "shop = \<lparr>carts = [], catalog = [''p1'' \<mapsto> civic, ''p3'' \<mapsto> accord]\<rparr>"

definition alice :: "AuthData option" where
  "alice = Some \<lparr>uid = ''alice''\<rparr>"

definition bob :: "AuthData option" where
  "bob = Some \<lparr>uid = ''bob''\<rparr>"

definition seller :: "AuthData option" where
  "seller = Some \<lparr>uid = ''seller''\<rparr>"

text \<open>The shop after Alice has put one unit of \<open>p1\<close> in her cart and then removed it again.\<close>

definition shop_with_cart :: Firestore where
  "shop_with_cart =
     \<lparr>carts = [\<lparr>cart_owner = ''alice'', status = ''pending'', products = Map.empty\<rparr>],
      catalog = [''p1'' \<mapsto> civic]\<rparr>"

text \<open>
  A shop in which Alice's pending cart holds \<open>p1\<close>, added when its price was 8,
  \<open>p2\<close>, a product that has been removed from the catalog since, and \<open>p3\<close>, added
  while it was still active.
\<close>

definition shop_alice :: Firestore where
  "shop_alice =
     \<lparr>carts = [\<lparr>cart_owner = ''alice'', status = ''pending'',
          products = [''p1'' \<mapsto> \<lparr>item_id = ''p1'', item_price = Fin 8, quantity = Fin 1\<rparr>,
                      ''p2'' \<mapsto> \<lparr>item_id = ''p2'', item_price = Fin 3, quantity = Fin 2\<rparr>,
                      ''p3'' \<mapsto> \<lparr>item_id = ''p3'', item_price = Fin 12, quantity = Fin 1\<rparr>]\<rparr>],
      catalog = [''p1'' \<mapsto> civic, ''p3'' \<mapsto> accord]\<rparr>"

text \<open>An update that changes the price only.\<close>

definition new_price_11 :: UpdateProductData where
  "new_price_11 =
     \<lparr>new_title = None, new_description = None, new_price = Some (Fin 11), new_stock = None,
      new_active = None, new_brand = None, new_tags = None, new_image_url = None\<rparr>"

text \<open>
  The shop after two calls of Alice for \<open>p1\<close>, with quantities 1 and 2, whose accesses
  alternated.
\<close>

definition shop_after_race :: Firestore where
  "shop_after_race =
     snd (interleave [0, 1, 0, 1, 0, 1]
       ([Started alice ''p1'' (Fin 1), Started alice ''p1'' (Fin 2)], shop))"

text \<open>A shop in which Alice's pending cart holds \<open>2 ^ 53\<close> units of \<open>p1\<close>.\<close>

definition shop_bulk :: Firestore where
  "shop_bulk =
     \<lparr>carts = [\<lparr>cart_owner = ''alice'', status = ''pending'',
          products = [''p1'' \<mapsto> \<lparr>item_id = ''p1'', item_price = Fin 10, quantity = Fin (2 ^ 53)\<rparr>]\<rparr>],
      catalog = [''p1'' \<mapsto> civic]\<rparr>"

section \<open>Lemmas about numbers\<close>

lemma powi_nat: "0 \<le> k \<Longrightarrow> (2::rat) powi k = 2 ^ nat k"
  by (simp add: power_int_def)

lemma floor_log2_ge1:
  assumes "1 \<le> x"
  shows "0 \<le> floor_log2 x" "2 ^ nat (floor_log2 x) \<le> x" "x < 2 ^ nat (floor_log2 x + 1)"
proof -
  from assms have p: "0 < \<lfloor>x\<rfloor>" by linarith
  from bitlen_bounds [OF p] have b: "2 ^ nat (bitlen \<lfloor>x\<rfloor> - 1) \<le> \<lfloor>x\<rfloor>" "\<lfloor>x\<rfloor> < 2 ^ nat (bitlen \<lfloor>x\<rfloor>)"
    by simp_all
  from p have k: "1 \<le> bitlen \<lfloor>x\<rfloor>"
    using bitlen_eq_zero_iff [of "\<lfloor>x\<rfloor>"] bitlen_nonneg [of "\<lfloor>x\<rfloor>"] by linarith
  have e: "floor_log2 x = bitlen \<lfloor>x\<rfloor> - 1" using assms by (simp add: floor_log2_def)
  show "0 \<le> floor_log2 x" using k e by simp
  have "(2::rat) ^ nat (bitlen \<lfloor>x\<rfloor> - 1) = of_int (2 ^ nat (bitlen \<lfloor>x\<rfloor> - 1))" by simp
  also have "\<dots> \<le> of_int \<lfloor>x\<rfloor>" using b(1) by (simp only: of_int_le_iff)
  also have "\<dots> \<le> x" by simp
  finally show "2 ^ nat (floor_log2 x) \<le> x" by (simp add: e)
  have "\<lfloor>x\<rfloor> + 1 \<le> 2 ^ nat (bitlen \<lfloor>x\<rfloor>)" using b(2) by simp
  then have "(of_int (\<lfloor>x\<rfloor> + 1) :: rat) \<le> of_int (2 ^ nat (bitlen \<lfloor>x\<rfloor>))" by (simp only: of_int_le_iff)
  moreover have "x < of_int (\<lfloor>x\<rfloor> + 1)" by linarith
  ultimately have "x < of_int (2 ^ nat (bitlen \<lfloor>x\<rfloor>))" by linarith
  then show "x < 2 ^ nat (floor_log2 x + 1)" using k by (simp add: e)
qed

lemma round_half_even_int: "round_half_even (of_int m) = m"
  by (simp add: round_half_even_def)

lemma to_double_pos_int:
  assumes "0 < n" "n \<le> 2 ^ 53"
  shows "to_double (of_int n) = Fin (of_int n)"
proof -
  let ?x = "of_int n :: rat"
  have x1: "1 \<le> ?x" using assms(1) by simp
  note fl = floor_log2_ge1 [OF x1]
  let ?e = "floor_log2 ?x"
  have le: "?e \<le> 53"
  proof (rule ccontr)
    assume "\<not> ?e \<le> 53"
    then have "54 \<le> nat ?e" by simp
    then have "(2::rat) ^ 54 \<le> 2 ^ nat ?e" by (intro power_increasing) simp_all
    with fl(2) have "(2::rat) ^ 54 \<le> ?x" by linarith
    moreover have "?x \<le> 2 ^ 53" using assms(2) by (metis of_int_le_iff of_int_numeral of_int_power)
    ultimately show False by simp
  qed
  have mx: "max (floor_log2 \<bar>?x\<bar>) (- 1022) = ?e" using fl(1) assms(1) by simp
  have "\<exists>m. ?x / 2 powi (?e - 52) = of_int m"
  proof (cases "?e \<le> 52")
    case True
    then have "(2::rat) powi (?e - 52) = 1 / 2 ^ nat (52 - ?e)"
      using power_int_minus_divide [of "2::rat" "52 - ?e"] by (simp add: powi_nat)
    then have "?x / 2 powi (?e - 52) = of_int (n * 2 ^ nat (52 - ?e))" by simp
    then show ?thesis by blast
  next
    case False
    with le have e53: "?e = 53" by simp
    with fl(2) have "(2::rat) ^ 53 \<le> ?x" by simp
    then have "(2::int) ^ 53 \<le> n" by (metis of_int_le_iff of_int_numeral of_int_power)
    with assms(2) have "n = 2 ^ 53" by simp
    then have "?x / 2 powi (?e - 52) = of_int (2 ^ 52)" using e53 by simp
    then show ?thesis by blast
  qed
  then obtain m where m: "?x / 2 powi (?e - 52) = of_int m" by blast
  have nz: "(2::rat) powi (?e - 52) \<noteq> 0" by simp
  from m nz have y: "of_int m * 2 powi (?e - 52) = ?x" by (simp add: field_simps)
  have small: "\<not> (2::rat) ^ 1024 \<le> \<bar>?x\<bar>"
  proof -
    have "?x \<le> 2 ^ 53" using assms(2) by (metis of_int_le_iff of_int_numeral of_int_power)
    moreover have "(2::rat) ^ 53 < 2 ^ 1024" by (intro power_strict_increasing) simp_all
    ultimately show ?thesis using assms(1) by simp
  qed
  have "?x \<noteq> 0" using assms(1) by simp
  then show ?thesis
    unfolding to_double_def Let_def mx m round_half_even_int y using small by simp
qed

lemma js_add_nat:
  assumes "a + b \<le> 2 ^ 53"
  shows "js_add (Fin (of_nat a)) (Fin (of_nat b)) = Fin (of_nat (a + b))"
proof (cases "a + b = 0")
  case True
  then show ?thesis by (simp add: to_double_def)
next
  case False
  then have p: "0 < int (a + b)" by (simp del: of_nat_add)
  from assms have "int (a + b) \<le> 2 ^ 53" by (metis of_nat_le_iff of_nat_numeral of_nat_power)
  from to_double_pos_int [OF p this] show ?thesis by simp
qed

lemma to_double_6: "to_double 6 = Fin 6"
  using to_double_pos_int [of 6] by simp

lemma to_double_3: "to_double 3 = Fin 3"
  using to_double_pos_int [of 3] by simp

lemma js_sum_nat_aux:
  "a + sum_list ns \<le> 2 ^ 53 \<Longrightarrow>
   foldl js_add (Fin (of_nat a)) (map (\<lambda>n. Fin (of_nat n)) ns) = Fin (of_nat (a + sum_list ns))"
proof (induction ns arbitrary: a)
  case Nil
  then show ?case by simp
next
  case (Cons n ns)
  from Cons.prems have 1: "a + n \<le> 2 ^ 53" and 2: "(a + n) + sum_list ns \<le> 2 ^ 53" by simp_all
  from Cons.IH [OF 2] js_add_nat [OF 1] show ?case by (simp add: add.assoc)
qed

lemma js_sum_nat:
  "sum_list ns \<le> 2 ^ 53 \<Longrightarrow> js_sum (map (\<lambda>n. Fin (of_nat n)) ns) = Fin (of_nat (sum_list ns))"
  using js_sum_nat_aux by (cases ns) simp_all

text \<open>Two sums that are not exact.\<close>

lemma bitlen_3: "bitlen 3 = 2"
  using bitlen_twopow_add_eq [of 1 1] by simp



lemma js_add_rounds_tenths:
  "js_add (Fin (3602879701896397 / 2 ^ 55)) (Fin (3602879701896397 / 2 ^ 54)) =
   Fin (5404319552844596 / 2 ^ 54)"
proof -
  let ?x = "10808639105689191 / 2 ^ 55 :: rat"
  have s: "3602879701896397 / 2 ^ 55 + 3602879701896397 / 2 ^ 54 = ?x" by simp
  have c: "\<lceil>1 / ?x\<rceil> = 4" by (simp add: ceiling_eq_iff)
  have e: "floor_log2 ?x = - 2" using c bitlen_3 by (simp add: floor_log2_def)
  have "\<lfloor>?x / (1 / 2 ^ 54)\<rfloor> = 5404319552844595" by (simp add: floor_eq_iff)
  then have r: "round_half_even (?x / (1 / 2 ^ 54)) = 5404319552844596"
    by (simp add: round_half_even_def Let_def)
  have q: "(2::rat) powi (- 54) = 1 / 2 ^ 54" by (simp add: power_int_minus_divide)
  have "to_double ?x = Fin (5404319552844596 / 2 ^ 54)"
    unfolding to_double_def Let_def using e r q by simp
  then show ?thesis by (simp only: js_add.simps s)
qed

section \<open>Lemmas about the query for the pending cart\<close>

lemma map_fix_filter_enumerate:
  "k < n \<Longrightarrow> map (\<lambda>(j, c). if j = k then (j, x) else (j, c)) (filter Q (enumerate n xs)) = filter Q (enumerate n xs)"
  by (rule map_idI) (auto simp: in_set_enumerate_eq)

lemma filter_enumerate_keep:
  "i < length xs \<Longrightarrow> P x = P (xs ! i) \<Longrightarrow>
   filter (\<lambda>(j, c). P c) (enumerate n (xs[i := x])) =
   map (\<lambda>(j, c). if j = n + i then (j, x) else (j, c)) (filter (\<lambda>(j, c). P c) (enumerate n xs))"
proof (induction xs arbitrary: n i)
  case Nil
  then show ?case by simp
next
  case (Cons a xs)
  show ?case
  proof (cases i)
    case 0
    with Cons.prems show ?thesis
      by (simp add: map_fix_filter_enumerate)
  next
    case (Suc k)
    with Cons.prems have "k < length xs" "P x = P (xs ! k)" by simp_all
    from Cons.IH [OF this, of "Suc n"] Suc show ?thesis by simp
  qed
qed

lemma filter_enumerate_drop:
  "i < length xs \<Longrightarrow> \<not> P x \<Longrightarrow>
   filter (\<lambda>(j, c). P c) (enumerate n (xs[i := x])) =
   filter (\<lambda>(j, c). j \<noteq> n + i) (filter (\<lambda>(j, c). P c) (enumerate n xs))"
proof (induction xs arbitrary: n i)
  case Nil
  then show ?case by simp
next
  case (Cons a xs)
  show ?case
  proof (cases i)
    case 0
    have "filter (\<lambda>(j, c). j \<noteq> n) (filter (\<lambda>(j, c). P c) (enumerate (Suc n) xs)) = filter (\<lambda>(j, c). P c) (enumerate (Suc n) xs)"
      by (rule filter_True) (auto simp: in_set_enumerate_eq)
    with 0 Cons.prems show ?thesis by simp
  next
    case (Suc k)
    with Cons.prems have "k < length xs" by simp
    from Cons.IH [OF this Cons.prems(2), of "Suc n"] Suc show ?thesis by simp
  qed
qed

lemma pendingD:
  "(d, c) \<in> set (getCurrentPendingCartRef fs u) \<Longrightarrow>
   d < length (carts fs) \<and> carts fs ! d = c \<and> cart_owner c = u \<and> status c = ''pending''"
  by (auto simp: getCurrentPendingCartRef_def in_set_enumerate_eq)

lemma pending_distinct: "distinct (map fst (getCurrentPendingCartRef fs u))"
  unfolding getCurrentPendingCartRef_def by (rule distinct_map_filter) simp

lemma pending_append:
  "getCurrentPendingCartRef (fs\<lparr>carts := carts fs @ [c]\<rparr>) u =
   getCurrentPendingCartRef fs u @
     (if cart_owner c = u \<and> status c = ''pending'' then [(length (carts fs), c)] else [])"
  by (simp add: getCurrentPendingCartRef_def enumerate_append_eq)

lemma pending_update_keep:
  assumes "d < length (carts fs)" "cart_owner x = cart_owner (carts fs ! d)" "status x = status (carts fs ! d)"
  shows "getCurrentPendingCartRef (fs\<lparr>carts := (carts fs)[d := x]\<rparr>) u =
         map (\<lambda>(j, c). if j = d then (j, x) else (j, c)) (getCurrentPendingCartRef fs u)"
  using filter_enumerate_keep [of d "carts fs" "\<lambda>c. cart_owner c = u \<and> status c = ''pending''" x 0] assms
  by (simp add: getCurrentPendingCartRef_def)

lemma pending_update_drop:
  assumes "d < length (carts fs)" "status x \<noteq> ''pending''"
  shows "getCurrentPendingCartRef (fs\<lparr>carts := (carts fs)[d := x]\<rparr>) u =
         filter (\<lambda>(j, c). j \<noteq> d) (getCurrentPendingCartRef fs u)"
  using filter_enumerate_drop [of d "carts fs" "\<lambda>c. cart_owner c = u \<and> status c = ''pending''" x 0] assms
  by (simp add: getCurrentPendingCartRef_def)

lemma pending_set_products_own:
  assumes "getCurrentPendingCartRef fs u = (d, c) # rest"
  shows "getCurrentPendingCartRef (fs\<lparr>carts := (carts fs)[d := (carts fs ! d)\<lparr>products := m\<rparr>]\<rparr>) u =
         (d, c\<lparr>products := m\<rparr>) # rest"
proof -
  from assms have "(d, c) \<in> set (getCurrentPendingCartRef fs u)" by simp
  from pendingD [OF this] have d: "d < length (carts fs)" "carts fs ! d = c" by simp_all
  from pending_distinct [of fs u] assms have "d \<notin> fst ` set rest" by simp
  then have "map (\<lambda>(j, x). if j = d then (j, (carts fs ! d)\<lparr>products := m\<rparr>) else (j, x)) rest = rest"
    by (intro map_idI) force
  with pending_update_keep [of d fs "(carts fs ! d)\<lparr>products := m\<rparr>" u] d(1) assms
  show ?thesis by (simp add: d(2))
qed

lemma pending_set_products_other:
  assumes "getCurrentPendingCartRef fs u = (d, c) # rest" "u' \<noteq> u"
  shows "getCurrentPendingCartRef (fs\<lparr>carts := (carts fs)[d := (carts fs ! d)\<lparr>products := m\<rparr>]\<rparr>) u' =
         getCurrentPendingCartRef fs u'"
proof -
  from assms have "(d, c) \<in> set (getCurrentPendingCartRef fs u)" by simp
  from pendingD [OF this] have d: "d < length (carts fs)" "carts fs ! d = c" "cart_owner c = u" by simp_all
  have "d \<notin> fst ` set (getCurrentPendingCartRef fs u')"
    using pendingD [of d _ fs u'] d assms(2) by auto
  then have "map (\<lambda>(j, x). if j = d then (j, (carts fs ! d)\<lparr>products := m\<rparr>) else (j, x)) (getCurrentPendingCartRef fs u')
      = getCurrentPendingCartRef fs u'"
    by (intro map_idI) force
  with pending_update_keep [of d fs "(carts fs ! d)\<lparr>products := m\<rparr>" u'] d(1)
  show ?thesis by simp
qed

lemma pending_set_completed_own:
  assumes "getCurrentPendingCartRef fs u = (d, c) # rest"
  shows "getCurrentPendingCartRef (fs\<lparr>carts := (carts fs)[d := (carts fs ! d)\<lparr>status := ''completed''\<rparr>]\<rparr>) u = rest"
proof -
  from assms have "(d, c) \<in> set (getCurrentPendingCartRef fs u)" by simp
  from pendingD [OF this] have d: "d < length (carts fs)" by simp
  from pending_distinct [of fs u] assms have "d \<notin> fst ` set rest" by simp
  then have "filter (\<lambda>(j, x). j \<noteq> d) rest = rest"
    by (intro filter_True) force
  with pending_update_drop [of d fs "(carts fs ! d)\<lparr>status := ''completed''\<rparr>" u] d assms
  show ?thesis by simp
qed

lemma pending_set_completed_other:
  assumes "getCurrentPendingCartRef fs u = (d, c) # rest" "u' \<noteq> u"
  shows "getCurrentPendingCartRef (fs\<lparr>carts := (carts fs)[d := (carts fs ! d)\<lparr>status := ''completed''\<rparr>]\<rparr>) u' =
         getCurrentPendingCartRef fs u'"
proof -
  from assms have "(d, c) \<in> set (getCurrentPendingCartRef fs u)" by simp
  from pendingD [OF this] have d: "d < length (carts fs)" "carts fs ! d = c" "cart_owner c = u" by simp_all
  have "d \<notin> fst ` set (getCurrentPendingCartRef fs u')"
    using pendingD [of d _ fs u'] d assms(2) by auto
  then have "filter (\<lambda>(j, x). j \<noteq> d) (getCurrentPendingCartRef fs u') = getCurrentPendingCartRef fs u'"
    by (intro filter_True) force
  with pending_update_drop [of d fs "(carts fs ! d)\<lparr>status := ''completed''\<rparr>" u'] d
  show ?thesis by simp
qed

section \<open>Lemmas about the handlers\<close>

lemma get_cart_eq:
  "checkAuth auth = Inr u \<Longrightarrow>
   get_cart fs auth =
     (case getCurrentPendingCartRef fs u of
        [] \<Rightarrow> Inl (HttpsError not_found ''No pending cart found for this user.'')
      | (ref, c) # _ \<Rightarrow> Inr c)"
  by (simp add: get_cart_def andThen_def)

lemma add_product_to_cart_ok:
  assumes "checkAuth auth = Inr u"
    and "validateEmptyStringField pid ''Product ID'' = Inr ()"
    and "validatePositiveNumberField qty ''Quantity'' = Inr ()"
    and "catalog fs pid = Some pd" and "active pd"
    and "checkProductStock pd qty = Inr ()"
  shows "add_product_to_cart fs auth pid qty =
         Inr (write_cart_line fs u pid qty (getCurrentPendingCartRef fs u) pd)"
  using assms
  by (simp add: add_product_to_cart_def andThen_def getProductDataById_def checkProductActive_def)

lemma write_cart_line_catalog:
  "catalog (snd (write_cart_line fs u pid qty snap pd)) = catalog fs"
  by (simp add: write_cart_line_def split: list.split option.split)

lemma write_cart_line_msg:
  "fst (write_cart_line fs u pid qty snap pd) = ''Product added to cart successfully''"
  by (simp add: write_cart_line_def split: list.split option.split)

lemma write_cart_line_new:
  assumes "getCurrentPendingCartRef fs u = []"
  shows "getCurrentPendingCartRef (snd (write_cart_line fs u pid qty [] pd)) u' =
         (if u' = u
          then [(length (carts fs), \<lparr>cart_owner = u, status = ''pending'',
                  products = [pid \<mapsto> \<lparr>item_id = pid, item_price = price pd, quantity = qty\<rparr>]\<rparr>)]
          else getCurrentPendingCartRef fs u')"
  using assms by (simp add: write_cart_line_def pending_append)

lemma write_cart_line_existing:
  assumes "getCurrentPendingCartRef fs u = (d, c) # rest"
  shows "getCurrentPendingCartRef (snd (write_cart_line fs u pid qty ((d, c) # rest) pd)) u' =
         (if u' = u
          then (d, c\<lparr>products := (products c)(pid \<mapsto>
                  (case products c pid of
                     Some l \<Rightarrow> l\<lparr>quantity := js_add (quantity l) qty\<rparr>
                   | None \<Rightarrow> \<lparr>item_id = pid, item_price = price pd, quantity = qty\<rparr>))\<rparr>) # rest
          else getCurrentPendingCartRef fs u')"
  using pending_set_products_own [OF assms] pending_set_products_other [OF assms]
  by (simp add: write_cart_line_def split: option.split)

lemma checkProductStock_fails_iff:
  "isl (checkProductStock p q) =
   (js_le (stock p) (Fin 0) \<or> (js_gt q (Fin 0) \<and> js_lt (stock p) q))"
  by (cases "stock p"; cases q) (auto simp: checkProductStock_def js_truthy_def js_gt_def)

lemma checkProductStock_code:
  "checkProductStock p q = Inl e \<Longrightarrow> code e = unavailable"
  by (auto simp: checkProductStock_def split: if_splits)

lemma checkProductStock_boundary:
  "js_gt q (Fin 0) \<Longrightarrow> stock p = q \<Longrightarrow> checkProductStock p q = Inr ()"
  by (cases q) (auto simp: checkProductStock_def js_truthy_def js_gt_def)

lemma validatePositiveNumberField_iff:
  "(validatePositiveNumberField q n = Inr ()) = js_gt q (Fin 0)"
  by (cases q) (auto simp: validatePositiveNumberField_def js_truthy_def js_gt_def)

lemma add_product_to_cart_get_cart:
  assumes "checkAuth auth = Inr u"
    and "validateEmptyStringField pid ''Product ID'' = Inr ()"
    and "validatePositiveNumberField qty ''Quantity'' = Inr ()"
    and "catalog fs pid = Some pd" and "active pd"
    and "checkProductStock pd qty = Inr ()"
  shows "\<exists>fs'. add_product_to_cart fs auth pid qty = Inr (''Product added to cart successfully'', fs') \<and>
           catalog fs' = catalog fs \<and>
           get_cart fs' auth =
             (case get_cart fs auth of
                Inl e \<Rightarrow> Inr \<lparr>cart_owner = u, status = ''pending'',
                  products = [pid \<mapsto> \<lparr>item_id = pid, item_price = price pd, quantity = qty\<rparr>]\<rparr>
              | Inr c \<Rightarrow> Inr (c\<lparr>products := (products c)(pid \<mapsto>
                  (case products c pid of
                     Some l \<Rightarrow> l\<lparr>quantity := js_add (quantity l) qty\<rparr>
                   | None \<Rightarrow> \<lparr>item_id = pid, item_price = price pd, quantity = qty\<rparr>))\<rparr>))"
proof -
  let ?w = "write_cart_line fs u pid qty (getCurrentPendingCartRef fs u) pd"
  have eq: "add_product_to_cart fs auth pid qty = Inr (''Product added to cart successfully'', snd ?w)"
    using add_product_to_cart_ok [OF assms] write_cart_line_msg [of fs u pid qty "getCurrentPendingCartRef fs u" pd]
    by (simp add: prod_eq_iff)
  have cat: "catalog (snd ?w) = catalog fs" by (rule write_cart_line_catalog)
  have "get_cart (snd ?w) auth =
             (case get_cart fs auth of
                Inl e \<Rightarrow> Inr \<lparr>cart_owner = u, status = ''pending'',
                  products = [pid \<mapsto> \<lparr>item_id = pid, item_price = price pd, quantity = qty\<rparr>]\<rparr>
              | Inr c \<Rightarrow> Inr (c\<lparr>products := (products c)(pid \<mapsto>
                  (case products c pid of
                     Some l \<Rightarrow> l\<lparr>quantity := js_add (quantity l) qty\<rparr>
                   | None \<Rightarrow> \<lparr>item_id = pid, item_price = price pd, quantity = qty\<rparr>))\<rparr>))"
  proof (cases "getCurrentPendingCartRef fs u")
    case Nil
    with write_cart_line_new [OF Nil, of pid qty pd u] show ?thesis
      by (simp add: get_cart_eq [OF assms(1)])
  next
    case (Cons x rest)
    obtain d c where x: "x = (d, c)" by (cases x)
    from Cons x have q: "getCurrentPendingCartRef fs u = (d, c) # rest" by simp
    from write_cart_line_existing [OF q, of pid qty pd u] q show ?thesis
      by (simp add: get_cart_eq [OF assms(1)])
  qed
  with eq cat show ?thesis by blast
qed

lemmas example_defs = shop_def shop_alice_def shop_with_cart_def shop_bulk_def shop_after_race_def
  civic_def accord_def alice_def bob_def seller_def

lemmas handler_defs = andThen_def checkAuth_def validateEmptyStringField_def trim_def
  is_white_space_def validatePositiveNumberField_def js_truthy_def getProductDataById_def
  checkProductActive_def checkProductStock_def getCurrentPendingCartRef_def
  has_property_def object_prototype_names_def

lemma quantity_update_eq:
  "l\<lparr>quantity := x\<rparr> = \<lparr>item_id = item_id l, item_price = item_price l, quantity = x\<rparr>"
  by (cases l) simp


lemma cart_line_after_add:
  assumes "checkAuth auth = Inr u"
    and "validateEmptyStringField pid ''Product ID'' = Inr ()"
    and "validatePositiveNumberField qty ''Quantity'' = Inr ()"
    and "catalog fs pid = Some pd" and "active pd"
    and "checkProductStock pd qty = Inr ()"
  shows "\<exists>fs'. add_product_to_cart fs auth pid qty = Inr (''Product added to cart successfully'', fs') \<and>
           catalog fs' = catalog fs \<and>
           cart_line fs' auth pid =
             (case cart_line fs auth pid of
                None \<Rightarrow> Some \<lparr>item_id = pid, item_price = price pd, quantity = qty\<rparr>
              | Some l \<Rightarrow> Some (l\<lparr>quantity := js_add (quantity l) qty\<rparr>)) \<and>
           (\<forall>k. k \<noteq> pid \<longrightarrow> cart_line fs' auth k = cart_line fs auth k)"
proof -
  from add_product_to_cart_get_cart [OF assms] obtain fs' where
    r: "add_product_to_cart fs auth pid qty = Inr (''Product added to cart successfully'', fs')"
    and c: "catalog fs' = catalog fs"
    and g: "get_cart fs' auth =
             (case get_cart fs auth of
                Inl e \<Rightarrow> Inr \<lparr>cart_owner = u, status = ''pending'',
                  products = [pid \<mapsto> \<lparr>item_id = pid, item_price = price pd, quantity = qty\<rparr>]\<rparr>
              | Inr c \<Rightarrow> Inr (c\<lparr>products := (products c)(pid \<mapsto>
                  (case products c pid of
                     Some l \<Rightarrow> l\<lparr>quantity := js_add (quantity l) qty\<rparr>
                   | None \<Rightarrow> \<lparr>item_id = pid, item_price = price pd, quantity = qty\<rparr>))\<rparr>))"
    by blast
  from g have "cart_line fs' auth pid =
             (case cart_line fs auth pid of
                None \<Rightarrow> Some \<lparr>item_id = pid, item_price = price pd, quantity = qty\<rparr>
              | Some l \<Rightarrow> Some (l\<lparr>quantity := js_add (quantity l) qty\<rparr>))"
    by (simp add: cart_line_def split: sum.split option.split)
  moreover from g have "\<forall>k. k \<noteq> pid \<longrightarrow> cart_line fs' auth k = cart_line fs auth k"
    by (simp add: cart_line_def split: sum.split option.split)
  ultimately show ?thesis using r c by blast
qed

lemma stock_five_scenario:
  assumes a: "checkAuth auth = Inr u"
    and v: "validateEmptyStringField pid ''Product ID'' = Inr ()"
    and p: "catalog fs pid = Some pd" and act: "active pd" and s: "stock pd = Fin 5"
    and n: "cart_line fs auth pid = None"
  shows "\<exists>fs1 fs2.
           add_product_to_cart fs auth pid (Fin 5) = Inr (''Product added to cart successfully'', fs1) \<and>
           add_product_to_cart fs auth pid (Fin 6) = Inl (HttpsError unavailable ''Not enough stock available'') \<and>
           catalog fs1 = catalog fs \<and>
           cart_line fs1 auth pid = Some \<lparr>item_id = pid, item_price = price pd, quantity = Fin 5\<rparr> \<and>
           add_product_to_cart fs1 auth pid (Fin 1) = Inr (''Product added to cart successfully'', fs2) \<and>
           cart_line fs2 auth pid = Some \<lparr>item_id = pid, item_price = price pd, quantity = Fin 6\<rparr>"
proof -
  have q5: "validatePositiveNumberField (Fin 5) ''Quantity'' = Inr ()"
    and q1: "validatePositiveNumberField (Fin 1) ''Quantity'' = Inr ()"
    by (simp_all add: validatePositiveNumberField_def js_truthy_def)
  have s5: "checkProductStock pd (Fin 5) = Inr ()" and s1: "checkProductStock pd (Fin 1) = Inr ()"
    using s by (simp_all add: checkProductStock_def js_truthy_def)
  from cart_line_after_add [OF a v q5 p act s5] n obtain fs1 where
    r1: "add_product_to_cart fs auth pid (Fin 5) = Inr (''Product added to cart successfully'', fs1)"
    and c1: "catalog fs1 = catalog fs"
    and l1: "cart_line fs1 auth pid = Some \<lparr>item_id = pid, item_price = price pd, quantity = Fin 5\<rparr>"
    by auto
  from p c1 have p1: "catalog fs1 pid = Some pd" by simp
  from cart_line_after_add [OF a v q1 p1 act s1] l1 obtain fs2 where
    r2: "add_product_to_cart fs1 auth pid (Fin 1) = Inr (''Product added to cart successfully'', fs2)"
    and l2: "cart_line fs2 auth pid = Some \<lparr>item_id = pid, item_price = price pd, quantity = Fin 6\<rparr>"
    by (auto simp: to_double_6)
  have r6: "add_product_to_cart fs auth pid (Fin 6) = Inl (HttpsError unavailable ''Not enough stock available'')"
    using a v p act s
    by (simp add: add_product_to_cart_def andThen_def validatePositiveNumberField_def js_truthy_def
        getProductDataById_def checkProductActive_def checkProductStock_def)
  from r1 r6 c1 l1 r2 l2 show ?thesis by blast
qed

lemma get_product_by_id_eq:
  assumes "checkAuth auth = Inr u"
    and "validateEmptyStringField pid ''Product ID'' = Inr ()"
    and "catalog fs pid = Some pd"
  shows "get_product_by_id fs auth pid =
         (if owner pd = u \<or> active pd then Inr (pid, pd)
          else Inl (HttpsError unavailable ''This product is currently unavailable''))"
  using assms
  by (simp add: get_product_by_id_def andThen_def getProductDataById_def checkProductActive_def)

lemma checkout_cart_eq:
  "checkAuth auth = Inr u \<Longrightarrow>
   checkout_cart fs auth =
     (case getCurrentPendingCartRef fs u of
        [] \<Rightarrow> Inl (HttpsError not_found ''No pending cart found for this user.'')
      | (d, c) # _ \<Rightarrow>
          Inr (''Checkout completed successfully.'',
               fs\<lparr>carts := (carts fs)[d := (carts fs ! d)\<lparr>status := ''completed''\<rparr>]\<rparr>))"
  by (simp add: checkout_cart_def andThen_def)

lemma checkout_first:
  assumes a: "checkAuth auth = Inr u"
    and q: "getCurrentPendingCartRef fs u = (d, c) # rest"
  shows "\<exists>fs'. checkout_cart fs auth = Inr (''Checkout completed successfully.'', fs') \<and>
           carts fs' = (carts fs)[d := c\<lparr>status := ''completed''\<rparr>] \<and>
           catalog fs' = catalog fs \<and>
           getCurrentPendingCartRef fs' u = rest \<and>
           (rest = [] \<longrightarrow>
              checkout_cart fs' auth =
                Inl (HttpsError not_found ''No pending cart found for this user.'')) \<and>
           (rest \<noteq> [] \<longrightarrow> \<not> isl (checkout_cart fs' auth))"
proof -
  let ?fs' = "fs\<lparr>carts := (carts fs)[d := (carts fs ! d)\<lparr>status := ''completed''\<rparr>]\<rparr>"
  from q have "(d, c) \<in> set (getCurrentPendingCartRef fs u)" by simp
  from pendingD [OF this] have d: "carts fs ! d = c" by simp
  have r: "checkout_cart fs auth = Inr (''Checkout completed successfully.'', ?fs')"
    using q by (simp add: checkout_cart_eq [OF a])
  have e: "getCurrentPendingCartRef ?fs' u = rest"
    using pending_set_completed_own [OF q] .
  have r1: "rest = [] \<longrightarrow>
      checkout_cart ?fs' auth = Inl (HttpsError not_found ''No pending cart found for this user.'')"
    using e by (simp add: checkout_cart_eq [OF a])
  have r2: "rest \<noteq> [] \<longrightarrow> \<not> isl (checkout_cart ?fs' auth)"
    using e by (auto simp: checkout_cart_eq [OF a] split: list.splits)
  have "carts ?fs' = (carts fs)[d := c\<lparr>status := ''completed''\<rparr>]" using d by simp
  moreover have "catalog ?fs' = catalog fs" by simp
  ultimately show ?thesis using r e r1 r2 by blast
qed

lemma has_property_own: "m k = Some v \<Longrightarrow> has_property m k"
  by (simp add: has_property_def)

lemma has_property_none:
  "m k = None \<Longrightarrow> has_property m k = (k \<in> set object_prototype_names)"
  by (simp add: has_property_def)

lemma remove_product_from_cart_eq:
  assumes "checkAuth auth = Inr u"
    and "validateEmptyStringField pid ''Product ID'' = Inr ()"
  shows "remove_product_from_cart fs auth pid =
     (case getCurrentPendingCartRef fs u of
        [] \<Rightarrow> Inl (HttpsError not_found ''No pending cart found for this user'')
      | (d, c) # _ \<Rightarrow>
          if \<not> has_property (products c) pid
          then Inl (HttpsError not_found ''Product not found in the cart'')
          else Inr (''Product removed from cart successfully'',
                    fs\<lparr>carts := (carts fs)[d := (carts fs ! d)\<lparr>products := (products c)(pid := None)\<rparr>]\<rparr>))"
  using assms by (simp add: remove_product_from_cart_def andThen_def Let_def split: list.split)

lemma remove_product_from_cart_cases:
  assumes a: "checkAuth auth = Inr u"
    and v: "validateEmptyStringField pid ''Product ID'' = Inr ()"
  shows "(isl (get_cart fs auth) \<longrightarrow>
            remove_product_from_cart fs auth pid =
              Inl (HttpsError not_found ''No pending cart found for this user''))"
    and "get_cart fs auth = Inr c \<Longrightarrow> \<not> has_property (products c) pid \<Longrightarrow>
            remove_product_from_cart fs auth pid =
              Inl (HttpsError not_found ''Product not found in the cart'')"
    and "get_cart fs auth = Inr c \<Longrightarrow> has_property (products c) pid \<Longrightarrow>
            \<exists>fs'. remove_product_from_cart fs auth pid =
                     Inr (''Product removed from cart successfully'', fs') \<and>
                   get_cart fs' auth = Inr (c\<lparr>products := (products c)(pid := None)\<rparr>) \<and>
                   catalog fs' = catalog fs"
proof -
  show "isl (get_cart fs auth) \<longrightarrow>
            remove_product_from_cart fs auth pid =
              Inl (HttpsError not_found ''No pending cart found for this user'')"
    by (auto simp: get_cart_eq [OF a] remove_product_from_cart_eq [OF a v] split: list.splits)
next
  assume "get_cart fs auth = Inr c" "\<not> has_property (products c) pid"
  then show "remove_product_from_cart fs auth pid =
              Inl (HttpsError not_found ''Product not found in the cart'')"
    by (auto simp: get_cart_eq [OF a] remove_product_from_cart_eq [OF a v] split: list.splits)
next
  assume g: "get_cart fs auth = Inr c" and l: "has_property (products c) pid"
  from g obtain d rest where q: "getCurrentPendingCartRef fs u = (d, c) # rest"
    by (auto simp: get_cart_eq [OF a] split: list.splits)
  let ?fs' = "fs\<lparr>carts := (carts fs)[d := (carts fs ! d)\<lparr>products := (products c)(pid := None)\<rparr>]\<rparr>"
  have "remove_product_from_cart fs auth pid = Inr (''Product removed from cart successfully'', ?fs')"
    using q l by (simp add: remove_product_from_cart_eq [OF a v])
  moreover have "get_cart ?fs' auth = Inr (c\<lparr>products := (products c)(pid := None)\<rparr>)"
    using pending_set_products_own [OF q] by (simp add: get_cart_eq [OF a])
  moreover have "catalog ?fs' = catalog fs" by simp
  ultimately show "\<exists>fs'. remove_product_from_cart fs auth pid =
                     Inr (''Product removed from cart successfully'', fs') \<and>
                   get_cart fs' auth = Inr (c\<lparr>products := (products c)(pid := None)\<rparr>) \<and>
                   catalog fs' = catalog fs" by blast
qed

lemma remove_product_from_cart_fails:
  assumes a: "checkAuth auth = Inr u"
    and v: "validateEmptyStringField pid ''Product ID'' = Inr ()"
    and f: "remove_product_from_cart fs auth pid = Inl e"
  shows "code e = not_found \<and>
         (isl (get_cart fs auth) \<or> (\<exists>c. get_cart fs auth = Inr c \<and> products c pid = None))"
  using f
  by (auto simp: get_cart_eq [OF a] remove_product_from_cart_eq [OF a v] has_property_def
      split: list.splits if_splits)

lemma remove_product_from_cart_catalog:
  "remove_product_from_cart (fs\<lparr>catalog := m\<rparr>) auth pid =
     (case remove_product_from_cart fs auth pid of
        Inl e \<Rightarrow> Inl e
      | Inr (msg, fs') \<Rightarrow> Inr (msg, fs'\<lparr>catalog := m\<rparr>))"
  by (simp add: remove_product_from_cart_def andThen_def getCurrentPendingCartRef_def Let_def
      split: sum.split list.split)

lemma update_product_quantity_in_cart_eq:
  assumes "checkAuth auth = Inr u"
    and "validateEmptyStringField pid ''Product ID'' = Inr ()"
    and "validatePositiveNumberField qty ''Quantity'' = Inr ()"
  shows "update_product_quantity_in_cart fs auth pid qty =
     (case getCurrentPendingCartRef fs u of
        [] \<Rightarrow> Inl (HttpsError not_found ''No pending cart found for this user'')
      | (d, c) # _ \<Rightarrow>
          if \<not> has_property (products c) pid
          then Inl (HttpsError not_found ''Product not found in the cart'')
          else
            (case catalog fs pid of
               None \<Rightarrow> Inl (HttpsError not_found ''Product not found'')
             | Some pd \<Rightarrow>
                 if \<not> active pd
                 then Inl (HttpsError unavailable ''This product is currently unavailable'')
                 else
                   (case checkProductStock pd qty of
                      Inl e \<Rightarrow> Inl e
                    | Inr _ \<Rightarrow>
                        Inr (''Product quantity updated successfully.'',
                             fs\<lparr>carts := (carts fs)[d := (carts fs ! d)\<lparr>products :=
                               (case products c pid of
                                  Some l \<Rightarrow> (products c)(pid \<mapsto> l\<lparr>quantity := qty\<rparr>)
                                | None \<Rightarrow> products c)\<rparr>]\<rparr>))))"
  using assms
  by (simp add: update_product_quantity_in_cart_def andThen_def Let_def getProductDataById_def
      checkProductActive_def split: list.split option.split sum.split)

lemma update_product_quantity_in_cart_no_cart:
  assumes a: "checkAuth auth = Inr u"
    and v: "validateEmptyStringField pid ''Product ID'' = Inr ()"
    and n: "validatePositiveNumberField qty ''Quantity'' = Inr ()"
    and g: "isl (get_cart fs auth)"
  shows "update_product_quantity_in_cart fs auth pid qty =
           Inl (HttpsError not_found ''No pending cart found for this user'')"
  using g
  by (auto simp: get_cart_eq [OF a] update_product_quantity_in_cart_eq [OF a v n] split: list.splits)

lemma update_product_quantity_in_cart_no_line:
  assumes a: "checkAuth auth = Inr u"
    and v: "validateEmptyStringField pid ''Product ID'' = Inr ()"
    and n: "validatePositiveNumberField qty ''Quantity'' = Inr ()"
    and g: "get_cart fs auth = Inr c" and l: "products c pid = None"
    and i: "pid \<notin> set object_prototype_names"
  shows "update_product_quantity_in_cart fs auth pid qty =
           Inl (HttpsError not_found ''Product not found in the cart'')"
  using g l i
  by (auto simp: get_cart_eq [OF a] update_product_quantity_in_cart_eq [OF a v n] has_property_def
      split: list.splits)

lemma update_product_quantity_in_cart_inherited:
  assumes a: "checkAuth auth = Inr u"
    and v: "validateEmptyStringField pid ''Product ID'' = Inr ()"
    and n: "validatePositiveNumberField qty ''Quantity'' = Inr ()"
    and g: "get_cart fs auth = Inr c" and l: "products c pid = None"
    and i: "pid \<in> set object_prototype_names"
    and p: "catalog fs pid = None"
  shows "update_product_quantity_in_cart fs auth pid qty =
           Inl (HttpsError not_found ''Product not found'')"
  using g l i p
  by (auto simp: get_cart_eq [OF a] update_product_quantity_in_cart_eq [OF a v n] has_property_def
      split: list.splits)

lemma update_product_quantity_in_cart_line:
  assumes a: "checkAuth auth = Inr u"
    and v: "validateEmptyStringField pid ''Product ID'' = Inr ()"
    and n: "validatePositiveNumberField qty ''Quantity'' = Inr ()"
    and g: "get_cart fs auth = Inr c" and l: "products c pid = Some l"
  shows "(catalog fs pid = None \<longrightarrow>
            update_product_quantity_in_cart fs auth pid qty =
              Inl (HttpsError not_found ''Product not found'')) \<and>
         (\<forall>pd. catalog fs pid = Some pd \<and> \<not> active pd \<longrightarrow>
            update_product_quantity_in_cart fs auth pid qty =
              Inl (HttpsError unavailable ''This product is currently unavailable'')) \<and>
         (\<forall>pd e. catalog fs pid = Some pd \<and> active pd \<and> checkProductStock pd qty = Inl e \<longrightarrow>
            update_product_quantity_in_cart fs auth pid qty = Inl e \<and> code e = unavailable) \<and>
         (\<forall>pd. catalog fs pid = Some pd \<and> active pd \<and> checkProductStock pd qty = Inr () \<longrightarrow>
            (\<exists>fs'. update_product_quantity_in_cart fs auth pid qty =
                     Inr (''Product quantity updated successfully.'', fs') \<and>
                   get_cart fs' auth = Inr (c\<lparr>products := (products c)(pid \<mapsto>
                     \<lparr>item_id = item_id l, item_price = item_price l, quantity = qty\<rparr>)\<rparr>) \<and>
                   catalog fs' = catalog fs))"
proof -
  from g obtain d rest where q: "getCurrentPendingCartRef fs u = (d, c) # rest"
    by (auto simp: get_cart_eq [OF a] split: list.splits)
  note eq = update_product_quantity_in_cart_eq [OF a v n, of fs]
  have 1: "catalog fs pid = None \<longrightarrow>
            update_product_quantity_in_cart fs auth pid qty =
              Inl (HttpsError not_found ''Product not found'')"
    using q l by (simp add: eq has_property_own)
  have 2: "\<forall>pd. catalog fs pid = Some pd \<and> \<not> active pd \<longrightarrow>
            update_product_quantity_in_cart fs auth pid qty =
              Inl (HttpsError unavailable ''This product is currently unavailable'')"
    using q l by (simp add: eq has_property_own)
  have 3: "\<forall>pd e. catalog fs pid = Some pd \<and> active pd \<and> checkProductStock pd qty = Inl e \<longrightarrow>
            update_product_quantity_in_cart fs auth pid qty = Inl e \<and> code e = unavailable"
    using q l by (auto simp: eq has_property_own dest: checkProductStock_code)
  have 4: "\<forall>pd. catalog fs pid = Some pd \<and> active pd \<and> checkProductStock pd qty = Inr () \<longrightarrow>
            (\<exists>fs'. update_product_quantity_in_cart fs auth pid qty =
                     Inr (''Product quantity updated successfully.'', fs') \<and>
                   get_cart fs' auth = Inr (c\<lparr>products := (products c)(pid \<mapsto>
                     \<lparr>item_id = item_id l, item_price = item_price l, quantity = qty\<rparr>)\<rparr>) \<and>
                   catalog fs' = catalog fs)"
  proof (intro allI impI)
    fix pd assume h: "catalog fs pid = Some pd \<and> active pd \<and> checkProductStock pd qty = Inr ()"
    let ?fs' = "fs\<lparr>carts := (carts fs)[d := (carts fs ! d)\<lparr>products :=
                  (products c)(pid \<mapsto> l\<lparr>quantity := qty\<rparr>)\<rparr>]\<rparr>"
    have "update_product_quantity_in_cart fs auth pid qty =
            Inr (''Product quantity updated successfully.'', ?fs')"
      using q l h by (simp add: eq has_property_own)
    moreover have "get_cart ?fs' auth = Inr (c\<lparr>products := (products c)(pid \<mapsto>
                     \<lparr>item_id = item_id l, item_price = item_price l, quantity = qty\<rparr>)\<rparr>)"
      using pending_set_products_own [OF q] by (simp add: get_cart_eq [OF a] quantity_update_eq)
    moreover have "catalog ?fs' = catalog fs" by simp
    ultimately show "\<exists>fs'. update_product_quantity_in_cart fs auth pid qty =
                     Inr (''Product quantity updated successfully.'', fs') \<and>
                   get_cart fs' auth = Inr (c\<lparr>products := (products c)(pid \<mapsto>
                     \<lparr>item_id = item_id l, item_price = item_price l, quantity = qty\<rparr>)\<rparr>) \<and>
                   catalog fs' = catalog fs" by blast
  qed
  from 1 2 3 4 show ?thesis by blast
qed

lemma add_product_to_cart_shape:
  "add_product_to_cart fs auth pid qty = Inr (msg, fs') \<Longrightarrow>
   \<exists>u pd. checkAuth auth = Inr u \<and>
     fs' = snd (write_cart_line fs u pid qty (getCurrentPendingCartRef fs u) pd)"
  by (auto simp: add_product_to_cart_def andThen_def split: sum.splits) (metis snd_conv)

lemma remove_product_from_cart_shape:
  "remove_product_from_cart fs auth pid = Inr (msg, fs') \<Longrightarrow>
   \<exists>u d c rest m. checkAuth auth = Inr u \<and> getCurrentPendingCartRef fs u = (d, c) # rest \<and>
     fs' = fs\<lparr>carts := (carts fs)[d := (carts fs ! d)\<lparr>products := m\<rparr>]\<rparr>"
  by (auto simp: remove_product_from_cart_def andThen_def Let_def
      split: sum.splits list.splits option.splits if_splits)

lemma update_product_quantity_in_cart_shape:
  "update_product_quantity_in_cart fs auth pid qty = Inr (msg, fs') \<Longrightarrow>
   \<exists>u d c rest m. checkAuth auth = Inr u \<and> getCurrentPendingCartRef fs u = (d, c) # rest \<and>
     fs' = fs\<lparr>carts := (carts fs)[d := (carts fs ! d)\<lparr>products := m\<rparr>]\<rparr>"
  by (auto simp: update_product_quantity_in_cart_def andThen_def Let_def
      split: sum.splits list.splits option.splits if_splits)

lemma clear_cart_shape:
  "clear_cart fs auth = Inr (msg, fs') \<Longrightarrow>
   \<exists>u d c rest m. checkAuth auth = Inr u \<and> getCurrentPendingCartRef fs u = (d, c) # rest \<and>
     fs' = fs\<lparr>carts := (carts fs)[d := (carts fs ! d)\<lparr>products := m\<rparr>]\<rparr>"
  by (auto simp: clear_cart_def andThen_def split: sum.splits list.splits)

lemma checkout_cart_shape:
  "checkout_cart fs auth = Inr (msg, fs') \<Longrightarrow>
   \<exists>u d c rest. checkAuth auth = Inr u \<and> getCurrentPendingCartRef fs u = (d, c) # rest \<and>
     fs' = fs\<lparr>carts := (carts fs)[d := (carts fs ! d)\<lparr>status := ''completed''\<rparr>]\<rparr>"
  by (auto simp: checkout_cart_def andThen_def split: sum.splits list.splits)

lemma write_cart_line_pending_le:
  assumes "length (getCurrentPendingCartRef fs u) \<le> 1"
  shows "length (getCurrentPendingCartRef
           (snd (write_cart_line fs u' pid qty (getCurrentPendingCartRef fs u') pd)) u) \<le> 1"
proof (cases "getCurrentPendingCartRef fs u'")
  case Nil
  with write_cart_line_new [OF Nil, of pid qty pd u] assms show ?thesis by simp
next
  case (Cons x rest)
  obtain d c where "x = (d, c)" by (cases x)
  with Cons have q: "getCurrentPendingCartRef fs u' = (d, c) # rest" by simp
  from write_cart_line_existing [OF q, of pid qty pd u] q assms show ?thesis
    by (auto split: if_splits)
qed

lemma set_products_pending_le:
  assumes "getCurrentPendingCartRef fs u' = (d, c) # rest"
    and "length (getCurrentPendingCartRef fs u) \<le> 1"
  shows "length (getCurrentPendingCartRef
           (fs\<lparr>carts := (carts fs)[d := (carts fs ! d)\<lparr>products := m\<rparr>]\<rparr>) u) \<le> 1"
  using pending_set_products_own [OF assms(1), of m] pending_set_products_other [OF assms(1), of u m] assms
  by (cases "u = u'") auto

lemma set_completed_pending_le:
  assumes "getCurrentPendingCartRef fs u' = (d, c) # rest"
    and "length (getCurrentPendingCartRef fs u) \<le> 1"
  shows "length (getCurrentPendingCartRef
           (fs\<lparr>carts := (carts fs)[d := (carts fs ! d)\<lparr>status := ''completed''\<rparr>]\<rparr>) u) \<le> 1"
  using pending_set_completed_own [OF assms(1)] pending_set_completed_other [OF assms(1), of u] assms
  by (cases "u = u'") auto

lemma perform_pending_le:
  assumes "length (getCurrentPendingCartRef fs u) \<le> 1"
  shows "length (getCurrentPendingCartRef (perform auth fs op) u) \<le> 1"
proof (cases op)
  case (AddLine pid qty)
  show ?thesis
  proof (cases "add_product_to_cart fs auth pid qty")
    case (Inl e)
    with AddLine assms show ?thesis by (simp add: after_def)
  next
    case (Inr r)
    obtain msg fs' where "r = (msg, fs')" by (cases r)
    with Inr add_product_to_cart_shape [of fs auth pid qty msg fs'] AddLine
      write_cart_line_pending_le [OF assms]
    show ?thesis by (auto simp: after_def)
  qed
next
  case (UpdateLineQuantity pid qty)
  show ?thesis
  proof (cases "update_product_quantity_in_cart fs auth pid qty")
    case (Inl e)
    with UpdateLineQuantity assms show ?thesis by (simp add: after_def)
  next
    case (Inr r)
    obtain msg fs' where "r = (msg, fs')" by (cases r)
    with Inr update_product_quantity_in_cart_shape [of fs auth pid qty msg fs'] UpdateLineQuantity
      set_products_pending_le [OF _ assms]
    show ?thesis by (auto simp: after_def)
  qed
next
  case (RemoveLine pid)
  show ?thesis
  proof (cases "remove_product_from_cart fs auth pid")
    case (Inl e)
    with RemoveLine assms show ?thesis by (simp add: after_def)
  next
    case (Inr r)
    obtain msg fs' where "r = (msg, fs')" by (cases r)
    with Inr remove_product_from_cart_shape [of fs auth pid msg fs'] RemoveLine
      set_products_pending_le [OF _ assms]
    show ?thesis by (auto simp: after_def)
  qed
next
  case ClearCart
  show ?thesis
  proof (cases "clear_cart fs auth")
    case (Inl e)
    with ClearCart assms show ?thesis by (simp add: after_def)
  next
    case (Inr r)
    obtain msg fs' where "r = (msg, fs')" by (cases r)
    with Inr clear_cart_shape [of fs auth msg fs'] ClearCart
      set_products_pending_le [OF _ assms]
    show ?thesis by (auto simp: after_def)
  qed
next
  case Checkout
  show ?thesis
  proof (cases "checkout_cart fs auth")
    case (Inl e)
    with Checkout assms show ?thesis by (simp add: after_def)
  next
    case (Inr r)
    obtain msg fs' where "r = (msg, fs')" by (cases r)
    with Inr checkout_cart_shape [of fs auth msg fs'] Checkout
      set_completed_pending_le [OF _ assms]
    show ?thesis by (auto simp: after_def)
  qed
next
  case GetCart
  with assms show ?thesis by simp
qed

lemma perform_all_pending_le:
  "length (getCurrentPendingCartRef fs u) \<le> 1 \<Longrightarrow>
   length (getCurrentPendingCartRef (perform_all auth fs ops) u) \<le> 1"
proof (induction ops arbitrary: fs)
  case Nil
  then show ?case by (simp add: perform_all_def)
next
  case (Cons x ops)
  from perform_pending_le [OF Cons.prems]
  have "length (getCurrentPendingCartRef (perform auth fs x) u) \<le> 1" .
  from Cons.IH [OF this] show ?case by (simp add: perform_all_def)
qed

lemma no_cart_no_pending:
  "\<forall>c \<in> set (carts fs). cart_owner c \<noteq> u \<Longrightarrow> getCurrentPendingCartRef fs u = []"
  by (auto simp: getCurrentPendingCartRef_def filter_empty_conv in_set_enumerate_eq)

lemma quantity_not_positive_add:
  assumes "checkAuth auth = Inr u" and "\<not> js_gt qty (Fin 0)"
  shows "\<exists>m. add_product_to_cart fs auth pid qty = Inl (HttpsError invalid_argument m)"
  using assms validatePositiveNumberField_iff [of qty "''Quantity''"]
  by (auto simp: add_product_to_cart_def andThen_def validateEmptyStringField_def
      validatePositiveNumberField_def split: sum.splits if_splits)

lemma quantity_not_positive_update:
  assumes "checkAuth auth = Inr u" and "\<not> js_gt qty (Fin 0)"
  shows "\<exists>m. update_product_quantity_in_cart fs auth pid qty = Inl (HttpsError invalid_argument m)"
  using assms validatePositiveNumberField_iff [of qty "''Quantity''"]
  by (auto simp: update_product_quantity_in_cart_def andThen_def validateEmptyStringField_def
      validatePositiveNumberField_def split: sum.splits if_splits)

lemma validatePositiveNonZeroNumberField_rejects:
  "js_le q (Fin 0) \<Longrightarrow>
   validatePositiveNonZeroNumberField (JNumber q) n =
     Inl (HTTPError (n @ '' must be a positive non-zero number'') 400)"
  by (simp add: validatePositiveNonZeroNumberField_def validateNumberField_def)

lemma validatePositiveNonZeroNumberField_accepts:
  "js_gt q (Fin 0) \<Longrightarrow> q \<noteq> PosInf \<Longrightarrow> validatePositiveNonZeroNumberField (JNumber q) n = Inr ()"
  by (cases q) (auto simp: validatePositiveNonZeroNumberField_def validateNumberField_def js_gt_def)

lemma update_product_eq:
  assumes "checkAuth auth = Inr u"
    and "validateEmptyStringField pid ''Product ID'' = Inr ()"
    and "catalog fs pid = Some pd"
  shows "update_product fs auth pid upd =
     (if owner pd \<noteq> u
      then Inl (HttpsError permission_denied ''You are not the owner of this product.'')
      else if no_updates upd then Inl (HttpsError internal ''INTERNAL'')
      else Inr (''Product updated successfully.'',
                fs\<lparr>catalog := (catalog fs)(pid \<mapsto> apply_updates upd pd)\<rparr>))"
  using assms by (simp add: update_product_def andThen_def getProductDataById_def)

lemma remove_product_eq:
  assumes "checkAuth auth = Inr u"
    and "validateEmptyStringField pid ''Product ID'' = Inr ()"
    and "catalog fs pid = Some pd"
  shows "remove_product fs auth pid =
     (if owner pd \<noteq> u
      then Inl (HttpsError permission_denied ''You are not the owner of this product.'')
      else Inr (''Product removed successfully.'', fs\<lparr>catalog := (catalog fs)(pid := None)\<rparr>))"
  using assms by (simp add: remove_product_def andThen_def getProductDataById_def)

lemma update_product_quantity_in_cart_not_denied:
  "update_product_quantity_in_cart fs auth pid qty = Inl e \<Longrightarrow> code e \<noteq> permission_denied"
  by (auto simp: update_product_quantity_in_cart_def andThen_def checkAuth_def
      validateEmptyStringField_def validatePositiveNumberField_def getProductDataById_def
      checkProductActive_def checkProductStock_def Let_def
      split: sum.splits list.splits option.splits if_splits)

lemma remove_product_from_cart_not_denied:
  "remove_product_from_cart fs auth pid = Inl e \<Longrightarrow> code e \<noteq> permission_denied"
  by (auto simp: remove_product_from_cart_def andThen_def checkAuth_def
      validateEmptyStringField_def Let_def
      split: sum.splits list.splits option.splits if_splits)

lemma update_product_quantity_in_cart_others:
  assumes "checkAuth auth = Inr u" and "u' \<noteq> u"
  shows "getCurrentPendingCartRef (after fs (update_product_quantity_in_cart fs auth pid qty)) u' =
         getCurrentPendingCartRef fs u'"
proof (cases "update_product_quantity_in_cart fs auth pid qty")
  case (Inl e)
  then show ?thesis by (simp add: after_def)
next
  case (Inr r)
  obtain msg fs' where "r = (msg, fs')" by (cases r)
  with Inr update_product_quantity_in_cart_shape [of fs auth pid qty msg fs'] assms
    pending_set_products_other [of fs u _ _ _ u']
  show ?thesis by (auto simp: after_def)
qed

lemma remove_product_from_cart_others:
  assumes "checkAuth auth = Inr u" and "u' \<noteq> u"
  shows "getCurrentPendingCartRef (after fs (remove_product_from_cart fs auth pid)) u' =
         getCurrentPendingCartRef fs u'"
proof (cases "remove_product_from_cart fs auth pid")
  case (Inl e)
  then show ?thesis by (simp add: after_def)
next
  case (Inr r)
  obtain msg fs' where "r = (msg, fs')" by (cases r)
  with Inr remove_product_from_cart_shape [of fs auth pid msg fs'] assms
    pending_set_products_other [of fs u _ _ _ u']
  show ?thesis by (auto simp: after_def)
qed

lemma add_steps_atomic:
  "\<exists>r. add_step (snd (add_step (snd (add_step fs (Started auth pid qty)))
                       (fst (add_step fs (Started auth pid qty)))))
               (fst (add_step (snd (add_step fs (Started auth pid qty)))
                       (fst (add_step fs (Started auth pid qty))))) =
        (Finished r, after fs (add_product_to_cart fs auth pid qty))"
  by (simp add: add_product_to_cart_def andThen_def after_def split: sum.split prod.split)

lemma interleave_call:
  assumes "k = length done"
  shows "\<exists>r. interleave [k, k, k] (done @ Started auth pid qty # todo, fs) =
           (done @ Finished r # todo, after fs (add_product_to_cart fs auth pid qty))"
proof -
  obtain c1 fs1 where s1: "add_step fs (Started auth pid qty) = (c1, fs1)" by (cases "add_step fs (Started auth pid qty)")
  obtain c2 fs2 where s2: "add_step fs1 c1 = (c2, fs2)" by (cases "add_step fs1 c1")
  obtain c3 fs3 where s3: "add_step fs2 c2 = (c3, fs3)" by (cases "add_step fs2 c2")
  from add_steps_atomic [of fs auth pid qty] s1 s2 s3 obtain r where
    r: "c3 = Finished r" "fs3 = after fs (add_product_to_cart fs auth pid qty)" by auto
  have "interleave [k, k, k] (done @ Started auth pid qty # todo, fs) = (done @ c3 # todo, fs3)"
    using assms s1 s2 s3 by (simp add: nth_append list_update_append)
  with r show ?thesis by blast
qed

lemma interleave_append:
  "interleave (xs @ ys) cfg = interleave ys (interleave xs cfg)"
proof (induction xs arbitrary: cfg)
  case Nil
  then show ?case by simp
next
  case (Cons i xs)
  obtain calls fs where "cfg = (calls, fs)" by (cases cfg)
  with Cons.IH show ?case by (simp split: prod.split)
qed

lemma interleave_serial_from:
  "k = length done \<Longrightarrow>
   snd (interleave (concat (map (\<lambda>i. [i, i, i]) [k..<k + length qs]))
          (done @ map (Started auth pid) qs, fs)) = add_lines fs auth pid qs"
proof (induction qs arbitrary: k "done" fs)
  case Nil
  then show ?case by (simp add: add_lines_def)
next
  case (Cons q qs)
  let ?rest = "concat (map (\<lambda>i. [i, i, i]) [Suc k..<Suc k + length qs])"
  let ?todo = "map (Started auth pid) qs"
  let ?fs' = "after fs (add_product_to_cart fs auth pid q)"
  from interleave_call [OF Cons.prems, of auth pid q ?todo fs] obtain r where
    r: "interleave [k, k, k] (done @ Started auth pid q # ?todo, fs) = (done @ Finished r # ?todo, ?fs')"
    by blast
  have u: "[k..<k + length (q # qs)] = k # [Suc k..<Suc k + length qs]"
    using upt_conv_Cons [of k "k + length (q # qs)"] by simp
  have e: "concat (map (\<lambda>i. [i, i, i]) [k..<k + length (q # qs)]) = [k, k, k] @ ?rest"
    by (simp only: u list.map concat.simps)
  have m: "map (Started auth pid) (q # qs) = Started auth pid q # ?todo" by simp
  have l: "Suc k = length (done @ [Finished r])" using Cons.prems by simp
  have "snd (interleave (concat (map (\<lambda>i. [i, i, i]) [k..<k + length (q # qs)]))
              (done @ map (Started auth pid) (q # qs), fs)) =
        snd (interleave ?rest (interleave [k, k, k] (done @ Started auth pid q # ?todo, fs)))"
    by (simp only: e m interleave_append)
  also have "\<dots> = snd (interleave ?rest ((done @ [Finished r]) @ ?todo, ?fs'))"
    by (simp only: r append_assoc append_Cons append_Nil)
  also have "\<dots> = add_lines ?fs' auth pid qs"
    by (rule Cons.IH [OF l])
  also have "\<dots> = add_lines fs auth pid (q # qs)"
    by (simp add: add_lines_def)
  finally show ?case .
qed

lemma interleave_serial:
  "snd (interleave (serial (length qs)) (map (Started auth pid) qs, fs)) = add_lines fs auth pid qs"
  using interleave_serial_from [of 0 "[]" qs auth pid fs] by (simp add: serial_def)

lemma add_lines_existing:
  assumes a: "checkAuth auth = Inr u"
    and v: "validateEmptyStringField pid ''Product ID'' = Inr ()"
    and act: "active pd"
  shows "catalog fs pid = Some pd \<Longrightarrow>
    \<forall>q \<in> set qs. validatePositiveNumberField q ''Quantity'' = Inr () \<and> checkProductStock pd q = Inr () \<Longrightarrow>
    cart_line fs auth pid = Some l \<Longrightarrow>
    cart_line (add_lines fs auth pid qs) auth pid = Some (l\<lparr>quantity := foldl js_add (quantity l) qs\<rparr>) \<and>
    (\<forall>k. k \<noteq> pid \<longrightarrow> cart_line (add_lines fs auth pid qs) auth k = cart_line fs auth k)"
proof (induction qs arbitrary: fs l)
  case Nil
  then show ?case by (simp add: add_lines_def)
next
  case (Cons q qs)
  from Cons.prems(2) have q: "validatePositiveNumberField q ''Quantity'' = Inr ()"
    "checkProductStock pd q = Inr ()" by simp_all
  from cart_line_after_add [OF a v q(1) Cons.prems(1) act q(2)] Cons.prems(3) obtain fs' where
    r: "add_product_to_cart fs auth pid q = Inr (''Product added to cart successfully'', fs')"
    and c: "catalog fs' = catalog fs"
    and l': "cart_line fs' auth pid = Some (l\<lparr>quantity := js_add (quantity l) q\<rparr>)"
    and o: "\<forall>k. k \<noteq> pid \<longrightarrow> cart_line fs' auth k = cart_line fs auth k"
    by auto
  from c Cons.prems(1) have c': "catalog fs' pid = Some pd" by simp
  from Cons.prems(2) have rest: "\<forall>q \<in> set qs. validatePositiveNumberField q ''Quantity'' = Inr () \<and> checkProductStock pd q = Inr ()"
    by simp
  from Cons.IH [OF c' rest l'] o r show ?case
    by (simp add: add_lines_def after_def)
qed

lemma add_lines_sum:
  assumes a: "checkAuth auth = Inr u"
    and v: "validateEmptyStringField pid ''Product ID'' = Inr ()"
    and c: "catalog fs pid = Some pd" and act: "active pd"
    and qs: "\<forall>q \<in> set qs. validatePositiveNumberField q ''Quantity'' = Inr () \<and> checkProductStock pd q = Inr ()"
    and ne: "qs \<noteq> []"
    and n: "cart_line fs auth pid = None"
  shows "cart_line (add_lines fs auth pid qs) auth pid =
           Some \<lparr>item_id = pid, item_price = price pd, quantity = js_sum qs\<rparr> \<and>
         (\<forall>k. k \<noteq> pid \<longrightarrow> cart_line (add_lines fs auth pid qs) auth k = cart_line fs auth k)"
proof -
  from ne obtain q rest where qr: "qs = q # rest" by (cases qs) auto
  with qs have q: "validatePositiveNumberField q ''Quantity'' = Inr ()" "checkProductStock pd q = Inr ()"
    and rest: "\<forall>q \<in> set rest. validatePositiveNumberField q ''Quantity'' = Inr () \<and> checkProductStock pd q = Inr ()"
    by simp_all
  from cart_line_after_add [OF a v q(1) c act q(2)] n obtain fs' where
    r: "add_product_to_cart fs auth pid q = Inr (''Product added to cart successfully'', fs')"
    and c': "catalog fs' = catalog fs"
    and l': "cart_line fs' auth pid = Some \<lparr>item_id = pid, item_price = price pd, quantity = q\<rparr>"
    and o: "\<forall>k. k \<noteq> pid \<longrightarrow> cart_line fs' auth k = cart_line fs auth k"
    by auto
  from c c' have c2: "catalog fs' pid = Some pd" by simp
  from add_lines_existing [OF a v act c2 rest l'] o r qr show ?thesis
    by (simp add: add_lines_def after_def)
qed

section \<open>The claims\<close>

text \<open>
  Claim C1, amended. Let an authenticated caller make one or more calls of
  \<^verbatim>\<open>add_product_to_cart\<close> for one product, the calls running one after the other (no call
  starts before the one before it has returned), the product existing and active, each
  quantity passing validation and the stock check, and the caller having no entry for the
  product at the start. Then the caller's pending cart ends with an entry for the product
  (entries are keyed by product ID, so it is the only one) whose price is the product's and
  whose quantity is the quantities added in the order of the calls by the addition of the
  language: the sum itself when the quantities are integers and the sum is at most
  \<open>2 ^ 53\<close>, and the rounded partial sums in general. The schedule without overlap leaves
  the database that the calls of the handler, one after the other, leave.
\<close>

theorem C1_serial_no_lost_update:
  assumes "checkAuth auth = Inr u"
    and "validateEmptyStringField pid ''Product ID'' = Inr ()"
    and "catalog fs pid = Some pd" and "active pd"
    and "\<forall>q \<in> set qs. validatePositiveNumberField q ''Quantity'' = Inr () \<and> checkProductStock pd q = Inr ()"
    and "qs \<noteq> []"
    and "cart_line fs auth pid = None"
  shows "cart_line (snd (interleave (serial (length qs)) (map (Started auth pid) qs, fs))) auth pid =
           Some \<lparr>item_id = pid, item_price = price pd, quantity = js_sum qs\<rparr> \<and>
         snd (interleave (serial (length qs)) (map (Started auth pid) qs, fs)) =
           add_lines fs auth pid qs \<and>
         (\<forall>ns. qs = map (\<lambda>n. Fin (of_nat n)) ns \<and> sum_list ns \<le> 2 ^ 53 \<longrightarrow>
            js_sum qs = Fin (of_nat (sum_list ns)))"
  using add_lines_sum [OF assms] interleave_serial [of qs auth pid fs] js_sum_nat by simp


theorem C1_serial_no_lost_update_witness:
  "checkAuth alice = Inr ''alice'' \<and> validateEmptyStringField ''p1'' ''Product ID'' = Inr () \<and>
   catalog shop_with_cart ''p1'' = Some civic \<and> active civic \<and>
   validatePositiveNumberField (Fin 1) ''Quantity'' = Inr () \<and>
   checkProductStock civic (Fin 1) = Inr () \<and>
   validatePositiveNumberField (Fin 2) ''Quantity'' = Inr () \<and>
   checkProductStock civic (Fin 2) = Inr () \<and>
   [Fin 1, Fin 2] \<noteq> [] \<and> cart_line shop_with_cart alice ''p1'' = None \<and>
   [Fin 1, Fin 2] = map (\<lambda>n. Fin (of_nat n)) [1, 2] \<and> sum_list [1, 2 :: nat] \<le> 2 ^ 53 \<and>
   js_sum [Fin 1, Fin 2] = Fin 3 \<and>
   cart_line (snd (interleave (serial (length [Fin 1, Fin 2]))
       (map (Started alice ''p1'') [Fin 1, Fin 2], shop_with_cart))) alice ''p1'' =
     Some \<lparr>item_id = ''p1'', item_price = Fin 10, quantity = Fin 3\<rparr>"
proof -
  have a: "checkAuth alice = Inr ''alice''" by (simp add: checkAuth_def alice_def)
  have v: "validateEmptyStringField ''p1'' ''Product ID'' = Inr ()"
    by (simp add: validateEmptyStringField_def trim_def is_white_space_def)
  have c: "catalog shop_with_cart ''p1'' = Some civic" by (simp add: shop_with_cart_def)
  have act: "active civic" by (simp add: civic_def)
  have q: "\<forall>q \<in> set [Fin 1, Fin 2].
      validatePositiveNumberField q ''Quantity'' = Inr () \<and> checkProductStock civic q = Inr ()"
    by (simp add: validatePositiveNumberField_def checkProductStock_def js_truthy_def civic_def)
  have ne: "[Fin 1, Fin 2] \<noteq> []" by simp
  have n: "cart_line shop_with_cart alice ''p1'' = None"
    by (simp add: cart_line_def get_cart_def andThen_def checkAuth_def alice_def
        getCurrentPendingCartRef_def shop_with_cart_def)
  have m: "[Fin 1, Fin 2] = map (\<lambda>n. Fin (of_nat n)) [1, 2]" by simp
  have s: "sum_list [1, 2 :: nat] \<le> 2 ^ 53" by simp
  note w = C1_serial_no_lost_update [OF a v c act q ne n]
  from w have x: "\<forall>ns. [Fin 1, Fin 2] = map (\<lambda>n. Fin (of_nat n)) ns \<and> sum_list ns \<le> 2 ^ 53 \<longrightarrow>
      js_sum [Fin 1, Fin 2] = Fin (of_nat (sum_list ns))"
    by (rule conjunct2 [OF conjunct2])
  have "js_sum [Fin 1, Fin 2] = Fin (of_nat (sum_list [1, 2]))"
    by (rule x [rule_format, OF conjI [OF m s]])
  then have p2: "js_sum [Fin 1, Fin 2] = Fin 3" by simp
  have p: "price civic = Fin 10" "js_sum [Fin 1, Fin 2] = Fin 3"
    using p2 by (simp_all add: civic_def)
  from w
  have "cart_line (snd (interleave (serial (length [Fin 1, Fin 2]))
       (map (Started alice ''p1'') [Fin 1, Fin 2], shop_with_cart))) alice ''p1'' =
     Some \<lparr>item_id = ''p1'', item_price = price civic, quantity = js_sum [Fin 1, Fin 2]\<rparr>"
    by (rule conjunct1)
  then have "cart_line (snd (interleave (serial (length [Fin 1, Fin 2]))
       (map (Started alice ''p1'') [Fin 1, Fin 2], shop_with_cart))) alice ''p1'' =
     Some \<lparr>item_id = ''p1'', item_price = Fin 10, quantity = Fin 3\<rparr>"
    by (simp only: p)
  then have fin: "cart_line (snd (interleave (serial (length [Fin 1, Fin 2]))
       (map (Started alice ''p1'') [Fin 1, Fin 2], shop_with_cart))) alice ''p1'' =
     Some \<lparr>item_id = ''p1'', item_price = Fin 10, quantity = Fin 3\<rparr>" .
  from q have q1: "validatePositiveNumberField (Fin 1) ''Quantity'' = Inr ()"
    and q2: "checkProductStock civic (Fin 1) = Inr ()"
    and q3: "validatePositiveNumberField (Fin 2) ''Quantity'' = Inr ()"
    and q4: "checkProductStock civic (Fin 2) = Inr ()"
    by simp_all
  show ?thesis
    by (intro conjI a v c act q1 q2 q3 q4 ne n m s p2 fin)
qed

text \<open>
  The claim as it is stated, for every interleaving, fails. Alice has an empty pending
  cart and makes two calls for \<open>p1\<close>, with quantities 1 and 2, whose accesses alternate:
  both query the cart before either writes, each writes the entries it read with its own
  entry added, and the second write replaces the first. Both calls succeed and the entry
  has quantity 2, not 3. From a database with no cart, the same schedule leaves two pending
  carts of Alice, one with quantity 1 and one with quantity 2.
\<close>

theorem C1_counterexample:
  "cart_line shop_with_cart alice ''p1'' = None \<and>
   fst (interleave [0, 1, 0, 1, 0, 1]
     ([Started alice ''p1'' (Fin 1), Started alice ''p1'' (Fin 2)], shop_with_cart)) =
     [Finished (Inr ''Product added to cart successfully''),
      Finished (Inr ''Product added to cart successfully'')] \<and>
   cart_line (snd (interleave [0, 1, 0, 1, 0, 1]
     ([Started alice ''p1'' (Fin 1), Started alice ''p1'' (Fin 2)], shop_with_cart))) alice ''p1'' =
     Some \<lparr>item_id = ''p1'', item_price = Fin 10, quantity = Fin 2\<rparr> \<and>
   js_sum [Fin 1, Fin 2] = Fin 3 \<and>
   map (\<lambda>c. (cart_owner c, status c, products c ''p1''))
     (carts (snd (interleave [0, 1, 0, 1, 0, 1]
       ([Started alice ''p1'' (Fin 1), Started alice ''p1'' (Fin 2)], shop)))) =
     [(''alice'', ''pending'', Some \<lparr>item_id = ''p1'', item_price = Fin 10, quantity = Fin 1\<rparr>),
      (''alice'', ''pending'', Some \<lparr>item_id = ''p1'', item_price = Fin 10, quantity = Fin 2\<rparr>)]"
  by (simp add: to_double_3 write_cart_line_def cart_line_def get_cart_def handler_defs example_defs)

text \<open>
  Claim C2. Start from a database with no cart of the owner and let the owner make any
  sequence of calls of \<^verbatim>\<open>add_product_to_cart\<close>, \<^verbatim>\<open>update_product_quantity_in_cart\<close>,
  \<^verbatim>\<open>remove_product_from_cart\<close>, \<^verbatim>\<open>clear_cart\<close>, \<^verbatim>\<open>checkout_cart\<close> and \<^verbatim>\<open>get_cart\<close>,
  one after the other, with any arguments. After every number of these calls the query for
  the owner's pending carts finds at most one cart.
\<close>

theorem C2_single_pending_cart:
  assumes "checkAuth auth = Inr u"
    and "\<forall>c \<in> set (carts fs). cart_owner c \<noteq> u"
  shows "length (getCurrentPendingCartRef (perform_all auth fs (take n ops)) u) \<le> 1"
  using no_cart_no_pending [OF assms(2)] perform_all_pending_le [of fs u auth "take n ops"]
  by simp


theorem C2_single_pending_cart_witness:
  "checkAuth alice = Inr ''alice'' \<and> carts shop = [] \<and>
   length (getCurrentPendingCartRef (perform_all alice shop
     (take 4 [AddLine ''p1'' (Fin 2), AddLine ''p1'' (Fin 1), Checkout, AddLine ''p1'' (Fin 3),
              GetCart, ClearCart])) ''alice'') \<le> 1 \<and>
   map status (carts (perform_all alice shop
     (take 4 [AddLine ''p1'' (Fin 2), AddLine ''p1'' (Fin 1), Checkout, AddLine ''p1'' (Fin 3),
              GetCart, ClearCart]))) = [''completed'', ''pending'']"
proof -
  have a: "checkAuth alice = Inr ''alice''" by (simp add: checkAuth_def alice_def)
  have n: "\<forall>c \<in> set (carts shop). cart_owner c \<noteq> ''alice''" by (simp add: shop_def)
  have e: "map status (carts (perform_all alice shop
     (take 4 [AddLine ''p1'' (Fin 2), AddLine ''p1'' (Fin 1), Checkout, AddLine ''p1'' (Fin 3),
              GetCart, ClearCart]))) = [''completed'', ''pending'']"
    by (simp add: perform_all_def after_def add_product_to_cart_def checkout_cart_def
        write_cart_line_def handler_defs example_defs)
  have s: "carts shop = []" by (simp add: shop_def)
  from C2_single_pending_cart [OF a n, of 4] a s e show ?thesis by blast
qed



text \<open>
  Claim C4. \<^verbatim>\<open>checkProductStock\<close> throws exactly when the stock is at most zero, or the
  requested quantity is above zero and the stock is below it, and what it throws is
  \<^verbatim>\<open>unavailable\<close>; a request for exactly the stock passes. For a product with stock 5 and
  a caller with no entry for it: adding 5 succeeds, adding 6 fails with \<^verbatim>\<open>unavailable\<close>,
  the first add leaves the catalog (and so the stock) as it was, and a further add of 1
  succeeds and brings the entry's quantity to 6.
\<close>

theorem C4_stock_check:
  "isl (checkProductStock p q) =
     (js_le (stock p) (Fin 0) \<or> (js_gt q (Fin 0) \<and> js_lt (stock p) q)) \<and>
   (\<forall>e. checkProductStock p q = Inl e \<longrightarrow> code e = unavailable) \<and>
   (js_gt q (Fin 0) \<and> stock p = q \<longrightarrow> checkProductStock p q = Inr ()) \<and>
   (checkAuth auth = Inr u \<and> validateEmptyStringField pid ''Product ID'' = Inr () \<and>
    catalog fs pid = Some pd \<and> active pd \<and> stock pd = Fin 5 \<and> cart_line fs auth pid = None \<longrightarrow>
    (\<exists>fs1 fs2.
       add_product_to_cart fs auth pid (Fin 5) = Inr (''Product added to cart successfully'', fs1) \<and>
       add_product_to_cart fs auth pid (Fin 6) = Inl (HttpsError unavailable ''Not enough stock available'') \<and>
       catalog fs1 = catalog fs \<and>
       cart_line fs1 auth pid = Some \<lparr>item_id = pid, item_price = price pd, quantity = Fin 5\<rparr> \<and>
       add_product_to_cart fs1 auth pid (Fin 1) = Inr (''Product added to cart successfully'', fs2) \<and>
       cart_line fs2 auth pid = Some \<lparr>item_id = pid, item_price = price pd, quantity = Fin 6\<rparr>))"
  using checkProductStock_fails_iff [of p q] checkProductStock_code [of p q]
    checkProductStock_boundary [of q p] stock_five_scenario [of auth u pid fs pd]
  by blast

theorem C4_stock_check_witness:
  "checkAuth alice = Inr ''alice'' \<and> validateEmptyStringField ''p1'' ''Product ID'' = Inr () \<and>
   catalog shop ''p1'' = Some civic \<and> active civic \<and> stock civic = Fin 5 \<and>
   cart_line shop alice ''p1'' = None \<and>
   js_gt (Fin 5) (Fin 0) \<and> stock civic = Fin 5 \<and>
   checkProductStock civic (Fin 5) = Inr () \<and>
   isl (checkProductStock civic (Fin 6)) \<and>
   isl (add_product_to_cart shop alice ''p1'' (Fin 6)) \<and>
   cart_line (after (after shop (add_product_to_cart shop alice ''p1'' (Fin 5)))
      (add_product_to_cart (after shop (add_product_to_cart shop alice ''p1'' (Fin 5))) alice ''p1'' (Fin 1)))
      alice ''p1'' = Some \<lparr>item_id = ''p1'', item_price = Fin 10, quantity = Fin 6\<rparr>"
proof -
  have h1: "checkAuth alice = Inr ''alice''" by (simp add: checkAuth_def alice_def)
  have h2: "validateEmptyStringField ''p1'' ''Product ID'' = Inr ()"
    by (simp add: validateEmptyStringField_def trim_def is_white_space_def)
  have h3: "catalog shop ''p1'' = Some civic" by (simp add: shop_def)
  have h4: "active civic" by (simp add: civic_def)
  have h5: "stock civic = Fin 5" by (simp add: civic_def)
  have h6: "cart_line shop alice ''p1'' = None"
    by (simp add: cart_line_def get_cart_def andThen_def checkAuth_def alice_def
        getCurrentPendingCartRef_def shop_def)
  have h7: "js_gt (Fin 5) (Fin 0)" by (simp add: js_gt_def)
  have h8: "js_lt (stock civic) (Fin 6)" "js_gt (Fin 6) (Fin 0)" by (simp_all add: civic_def js_gt_def)
  have pr: "price civic = Fin 10" by (simp add: civic_def)
  from C4_stock_check [of civic "Fin 5" alice "''alice''" "''p1''" shop civic] h1 h2 h3 h4 h5 h6 h7
  have a: "checkProductStock civic (Fin 5) = Inr ()"
    and b: "\<exists>fs1 fs2.
       add_product_to_cart shop alice ''p1'' (Fin 5) = Inr (''Product added to cart successfully'', fs1) \<and>
       add_product_to_cart shop alice ''p1'' (Fin 6) = Inl (HttpsError unavailable ''Not enough stock available'') \<and>
       add_product_to_cart fs1 alice ''p1'' (Fin 1) = Inr (''Product added to cart successfully'', fs2) \<and>
       cart_line fs2 alice ''p1'' = Some \<lparr>item_id = ''p1'', item_price = price civic, quantity = Fin 6\<rparr>"
    by blast+
  from C4_stock_check [of civic "Fin 6"] h8 have c: "isl (checkProductStock civic (Fin 6))" by blast
  from b pr have d: "isl (add_product_to_cart shop alice ''p1'' (Fin 6)) \<and>
   cart_line (after (after shop (add_product_to_cart shop alice ''p1'' (Fin 5)))
      (add_product_to_cart (after shop (add_product_to_cart shop alice ''p1'' (Fin 5))) alice ''p1'' (Fin 1)))
      alice ''p1'' = Some \<lparr>item_id = ''p1'', item_price = Fin 10, quantity = Fin 6\<rparr>"
    by (auto simp: after_def)
  from h1 h2 h3 h4 h5 h6 h7 a c d show ?thesis by blast
qed

text \<open>
  Claim C5, amended. When the caller has a pending cart, \<^verbatim>\<open>checkout_cart\<close> succeeds and
  sets the status of the first pending cart that the query returns to \<^verbatim>\<open>completed\<close>; the
  caller's other pending carts, if any, stay pending. If that cart was the caller's only
  pending cart (invariant I1 of the data model), a second \<^verbatim>\<open>checkout_cart\<close> right after
  it fails with \<^verbatim>\<open>not-found\<close>; if the caller had several, it succeeds again.
\<close>

theorem C5_checkout:
  assumes "checkAuth auth = Inr u"
    and "getCurrentPendingCartRef fs u \<noteq> []"
  shows "\<exists>d c rest fs'. getCurrentPendingCartRef fs u = (d, c) # rest \<and>
           checkout_cart fs auth = Inr (''Checkout completed successfully.'', fs') \<and>
           carts fs' = (carts fs)[d := c\<lparr>status := ''completed''\<rparr>] \<and>
           getCurrentPendingCartRef fs' u = rest \<and>
           (rest = [] \<longrightarrow>
              checkout_cart fs' auth =
                Inl (HttpsError not_found ''No pending cart found for this user.'')) \<and>
           (rest \<noteq> [] \<longrightarrow> \<not> isl (checkout_cart fs' auth))"
proof -
  from assms(2) obtain x rest where "getCurrentPendingCartRef fs u = x # rest"
    by (cases "getCurrentPendingCartRef fs u") auto
  then obtain d c where q: "getCurrentPendingCartRef fs u = (d, c) # rest" by (cases x) simp
  from checkout_first [OF assms(1) q] q show ?thesis by blast
qed

theorem C5_checkout_witness:
  "checkAuth alice = Inr ''alice'' \<and>
   length (getCurrentPendingCartRef shop_alice ''alice'') = 1 \<and>
   map status (carts shop_alice) = [''pending''] \<and>
   map status (carts (after shop_alice (checkout_cart shop_alice alice))) = [''completed''] \<and>
   checkout_cart (after shop_alice (checkout_cart shop_alice alice)) alice =
     Inl (HttpsError not_found ''No pending cart found for this user.'') \<and>
   length (getCurrentPendingCartRef shop_after_race ''alice'') = 2 \<and>
   \<not> isl (checkout_cart (after shop_after_race (checkout_cart shop_after_race alice)) alice)"
proof -
  have a: "checkAuth alice = Inr ''alice''" by (simp add: checkAuth_def alice_def)
  have q: "getCurrentPendingCartRef shop_alice ''alice'' = [(0, hd (carts shop_alice))]"
    by (simp add: getCurrentPendingCartRef_def shop_alice_def)
  then have l: "length (getCurrentPendingCartRef shop_alice ''alice'') = 1"
    and ne: "getCurrentPendingCartRef shop_alice ''alice'' \<noteq> []" by simp_all
  have s: "map status (carts shop_alice) = [''pending'']" by (simp add: shop_alice_def)
  from C5_checkout [OF a ne] q obtain fs' where
    "checkout_cart shop_alice alice = Inr (''Checkout completed successfully.'', fs')"
    "carts fs' = (carts shop_alice)[0 := (hd (carts shop_alice))\<lparr>status := ''completed''\<rparr>]"
    "checkout_cart fs' alice = Inl (HttpsError not_found ''No pending cart found for this user.'')"
    by auto
  then have w1: "map status (carts (after shop_alice (checkout_cart shop_alice alice))) = [''completed''] \<and>
     checkout_cart (after shop_alice (checkout_cart shop_alice alice)) alice =
       Inl (HttpsError not_found ''No pending cart found for this user.'')"
    by (simp add: after_def shop_alice_def)
  have l2: "length (getCurrentPendingCartRef shop_after_race ''alice'') = 2"
    by (simp add: write_cart_line_def handler_defs example_defs)
  then have ne2: "getCurrentPendingCartRef shop_after_race ''alice'' \<noteq> []" by auto
  from C5_checkout [OF a ne2] obtain d c rest fs2 where
    q2: "getCurrentPendingCartRef shop_after_race ''alice'' = (d, c) # rest"
    and r2: "checkout_cart shop_after_race alice = Inr (''Checkout completed successfully.'', fs2)"
    and n2: "rest \<noteq> [] \<longrightarrow> \<not> isl (checkout_cart fs2 alice)"
    by blast
  from q2 l2 have "rest \<noteq> []" by auto
  with n2 r2 have w2: "\<not> isl (checkout_cart (after shop_after_race (checkout_cart shop_after_race alice)) alice)"
    by (simp add: after_def)
  from a l s w1 l2 w2 show ?thesis by blast
qed

text \<open>
  The claim as it is stated, with the second call failing whenever the caller had a
  pending cart, fails. After the two overlapping calls of \<^verbatim>\<open>add_product_to_cart\<close> of
  \<open>shop_after_race\<close> Alice has two pending carts; \<^verbatim>\<open>checkout_cart\<close> completes the first,
  and a second \<^verbatim>\<open>checkout_cart\<close> right after it succeeds and completes the other.
\<close>

theorem C5_checkout_counterexample:
  "map (\<lambda>c. (cart_owner c, status c)) (carts shop_after_race) =
     [(''alice'', ''pending''), (''alice'', ''pending'')] \<and>
   \<not> isl (checkout_cart shop_after_race alice) \<and>
   map status (carts (after shop_after_race (checkout_cart shop_after_race alice))) =
     [''completed'', ''pending''] \<and>
   \<not> isl (checkout_cart (after shop_after_race (checkout_cart shop_after_race alice)) alice) \<and>
   map status (carts (after (after shop_after_race (checkout_cart shop_after_race alice))
     (checkout_cart (after shop_after_race (checkout_cart shop_after_race alice)) alice))) =
     [''completed'', ''completed'']"
  by (simp add: checkout_cart_def after_def write_cart_line_def handler_defs example_defs)

text \<open>
  Claim C6. \<^verbatim>\<open>update_product_quantity_in_cart\<close>, called by an authenticated caller with a
  product ID and a quantity that pass validation, fails with \<^verbatim>\<open>not-found\<close> when the
  caller has no pending cart and when the pending cart has no entry for the product. (The
  test for the entry is a property read: for the name of a property that every object
  inherits it passes, and \<^verbatim>\<open>not-found\<close> then comes from the catalog, which holds no
  product document of such a name, product IDs being generated.) When the cart has an
  entry for the product the handler reads the product again: it fails with
  \<^verbatim>\<open>not-found\<close> when the product no longer exists, with \<^verbatim>\<open>unavailable\<close> when it is
  inactive, and with the error of the stock check when the stock check of the given
  quantity (the new quantity itself, not an increase) fails. When all of these pass, the
  entry gets the given quantity in place of its old one and keeps its ID and its price; the
  other entries and the catalog are as before.
\<close>

theorem C6_update_line_quantity:
  assumes "checkAuth auth = Inr u"
    and "validateEmptyStringField pid ''Product ID'' = Inr ()"
    and "validatePositiveNumberField qty ''Quantity'' = Inr ()"
  shows "(isl (get_cart fs auth) \<longrightarrow>
            update_product_quantity_in_cart fs auth pid qty =
              Inl (HttpsError not_found ''No pending cart found for this user'')) \<and>
         (\<forall>c. get_cart fs auth = Inr c \<and> products c pid = None \<and>
              pid \<notin> set object_prototype_names \<longrightarrow>
            update_product_quantity_in_cart fs auth pid qty =
              Inl (HttpsError not_found ''Product not found in the cart'')) \<and>
         (\<forall>c. get_cart fs auth = Inr c \<and> products c pid = None \<and>
              pid \<in> set object_prototype_names \<and> catalog fs pid = None \<longrightarrow>
            update_product_quantity_in_cart fs auth pid qty =
              Inl (HttpsError not_found ''Product not found'')) \<and>
         (\<forall>c l. get_cart fs auth = Inr c \<and> products c pid = Some l \<longrightarrow>
            (catalog fs pid = None \<longrightarrow>
               update_product_quantity_in_cart fs auth pid qty =
                 Inl (HttpsError not_found ''Product not found'')) \<and>
            (\<forall>pd. catalog fs pid = Some pd \<and> \<not> active pd \<longrightarrow>
               update_product_quantity_in_cart fs auth pid qty =
                 Inl (HttpsError unavailable ''This product is currently unavailable'')) \<and>
            (\<forall>pd e. catalog fs pid = Some pd \<and> active pd \<and> checkProductStock pd qty = Inl e \<longrightarrow>
               update_product_quantity_in_cart fs auth pid qty = Inl e \<and> code e = unavailable) \<and>
            (\<forall>pd. catalog fs pid = Some pd \<and> active pd \<and> checkProductStock pd qty = Inr () \<longrightarrow>
               (\<exists>fs'. update_product_quantity_in_cart fs auth pid qty =
                        Inr (''Product quantity updated successfully.'', fs') \<and>
                      get_cart fs' auth = Inr (c\<lparr>products := (products c)(pid \<mapsto>
                        \<lparr>item_id = item_id l, item_price = item_price l, quantity = qty\<rparr>)\<rparr>) \<and>
                      catalog fs' = catalog fs)))"
  using update_product_quantity_in_cart_no_cart [OF assms, of fs]
    update_product_quantity_in_cart_no_line [OF assms, of fs]
    update_product_quantity_in_cart_inherited [OF assms, of fs]
    update_product_quantity_in_cart_line [OF assms, of fs]
  by blast


theorem C6_update_line_quantity_witness:
  "checkAuth alice = Inr ''alice'' \<and> checkAuth bob = Inr ''bob'' \<and>
   validateEmptyStringField ''p1'' ''Product ID'' = Inr () \<and>
   validateEmptyStringField ''p2'' ''Product ID'' = Inr () \<and>
   validateEmptyStringField ''p3'' ''Product ID'' = Inr () \<and>
   validatePositiveNumberField (Fin 4) ''Quantity'' = Inr () \<and>
   validatePositiveNumberField (Fin 6) ''Quantity'' = Inr () \<and>
   isl (get_cart shop_alice bob) \<and>
   update_product_quantity_in_cart shop_alice bob ''p1'' (Fin 4) =
     Inl (HttpsError not_found ''No pending cart found for this user'') \<and>
   cart_line shop_with_cart alice ''p1'' = None \<and>
   update_product_quantity_in_cart shop_with_cart alice ''p1'' (Fin 4) =
     Inl (HttpsError not_found ''Product not found in the cart'') \<and>
   validateEmptyStringField ''toString'' ''Product ID'' = Inr () \<and>
   cart_line shop_with_cart alice ''toString'' = None \<and> catalog shop_with_cart ''toString'' = None \<and>
   update_product_quantity_in_cart shop_with_cart alice ''toString'' (Fin 4) =
     Inl (HttpsError not_found ''Product not found'') \<and>
   catalog shop_alice ''p2'' = None \<and>
   update_product_quantity_in_cart shop_alice alice ''p2'' (Fin 4) =
     Inl (HttpsError not_found ''Product not found'') \<and>
   catalog shop_alice ''p3'' = Some accord \<and> \<not> active accord \<and>
   update_product_quantity_in_cart shop_alice alice ''p3'' (Fin 4) =
     Inl (HttpsError unavailable ''This product is currently unavailable'') \<and>
   catalog shop_alice ''p1'' = Some civic \<and> active civic \<and> price civic = Fin 10 \<and>
   checkProductStock civic (Fin 6) = Inl (HttpsError unavailable ''Not enough stock available'') \<and>
   update_product_quantity_in_cart shop_alice alice ''p1'' (Fin 6) =
     Inl (HttpsError unavailable ''Not enough stock available'') \<and>
   checkProductStock civic (Fin 4) = Inr () \<and>
   cart_line shop_alice alice ''p1'' = Some \<lparr>item_id = ''p1'', item_price = Fin 8, quantity = Fin 1\<rparr> \<and>
   cart_line (after shop_alice (update_product_quantity_in_cart shop_alice alice ''p1'' (Fin 4))) alice ''p1'' =
     Some \<lparr>item_id = ''p1'', item_price = Fin 8, quantity = Fin 4\<rparr>"
proof -
  have a: "checkAuth alice = Inr ''alice''" and b: "checkAuth bob = Inr ''bob''"
    by (simp_all add: checkAuth_def alice_def bob_def)
  have v1: "validateEmptyStringField ''p1'' ''Product ID'' = Inr ()"
    and v2: "validateEmptyStringField ''p2'' ''Product ID'' = Inr ()"
    and v3: "validateEmptyStringField ''p3'' ''Product ID'' = Inr ()"
    by (simp_all add: validateEmptyStringField_def trim_def is_white_space_def)
  have n4: "validatePositiveNumberField (Fin 4) ''Quantity'' = Inr ()"
    and n6: "validatePositiveNumberField (Fin 6) ''Quantity'' = Inr ()"
    by (simp_all add: validatePositiveNumberField_def js_truthy_def)
  have g: "get_cart shop_alice alice = Inr (hd (carts shop_alice))"
    by (simp add: get_cart_def andThen_def checkAuth_def alice_def getCurrentPendingCartRef_def shop_alice_def)
  have l1: "products (hd (carts shop_alice)) ''p1'' = Some \<lparr>item_id = ''p1'', item_price = Fin 8, quantity = Fin 1\<rparr>"
    and l2: "products (hd (carts shop_alice)) ''p2'' = Some \<lparr>item_id = ''p2'', item_price = Fin 3, quantity = Fin 2\<rparr>"
    and l3: "products (hd (carts shop_alice)) ''p3'' = Some \<lparr>item_id = ''p3'', item_price = Fin 12, quantity = Fin 1\<rparr>"
    by (simp_all add: shop_alice_def)
  have gb: "isl (get_cart shop_alice bob)"
    by (simp add: get_cart_def andThen_def checkAuth_def bob_def getCurrentPendingCartRef_def shop_alice_def)
  have gw: "get_cart shop_with_cart alice = Inr (hd (carts shop_with_cart))"
    by (simp add: get_cart_def andThen_def checkAuth_def alice_def getCurrentPendingCartRef_def shop_with_cart_def)
  have lw: "products (hd (carts shop_with_cart)) ''p1'' = None" by (simp add: shop_with_cart_def)
  have vt: "validateEmptyStringField ''toString'' ''Product ID'' = Inr ()"
    by (simp add: validateEmptyStringField_def trim_def is_white_space_def)
  have lt: "products (hd (carts shop_with_cart)) ''toString'' = None" by (simp add: shop_with_cart_def)
  have ct: "catalog shop_with_cart ''toString'' = None" by (simp add: shop_with_cart_def)
  have it: "''toString'' \<in> set object_prototype_names" by (simp add: object_prototype_names_def)
  have np: "''p1'' \<notin> set object_prototype_names" by (simp add: object_prototype_names_def)
  have c1: "catalog shop_alice ''p1'' = Some civic" and c2: "catalog shop_alice ''p2'' = None"
    and c3: "catalog shop_alice ''p3'' = Some accord"
    by (simp_all add: shop_alice_def)
  have f: "\<not> active accord" "active civic" "price civic = Fin 10"
    by (simp_all add: accord_def civic_def)
  have s6: "checkProductStock civic (Fin 6) = Inl (HttpsError unavailable ''Not enough stock available'')"
    and s4: "checkProductStock civic (Fin 4) = Inr ()"
    by (simp_all add: checkProductStock_def civic_def js_truthy_def)
  from C6_update_line_quantity [OF b v1 n4, of shop_alice] gb
  have w1: "update_product_quantity_in_cart shop_alice bob ''p1'' (Fin 4) =
     Inl (HttpsError not_found ''No pending cart found for this user'')" by blast
  from C6_update_line_quantity [OF a vt n4, of shop_with_cart] gw lt ct it
  have wt: "update_product_quantity_in_cart shop_with_cart alice ''toString'' (Fin 4) =
     Inl (HttpsError not_found ''Product not found'')" by blast
  have clt: "cart_line shop_with_cart alice ''toString'' = None" using gw lt by (simp add: cart_line_def)
  from C6_update_line_quantity [OF a v1 n4, of shop_with_cart] gw lw np
  have w2: "update_product_quantity_in_cart shop_with_cart alice ''p1'' (Fin 4) =
     Inl (HttpsError not_found ''Product not found in the cart'')" by blast
  from C6_update_line_quantity [OF a v2 n4, of shop_alice] g l2 c2
  have w3: "update_product_quantity_in_cart shop_alice alice ''p2'' (Fin 4) =
     Inl (HttpsError not_found ''Product not found'')" by blast
  from C6_update_line_quantity [OF a v3 n4, of shop_alice] g l3 c3 f
  have w4: "update_product_quantity_in_cart shop_alice alice ''p3'' (Fin 4) =
     Inl (HttpsError unavailable ''This product is currently unavailable'')" by blast
  from C6_update_line_quantity [OF a v1 n6, of shop_alice] g l1 c1 f s6
  have w5: "update_product_quantity_in_cart shop_alice alice ''p1'' (Fin 6) =
     Inl (HttpsError unavailable ''Not enough stock available'')" by blast
  from C6_update_line_quantity [OF a v1 n4, of shop_alice] g l1 c1 f s4
  obtain fs' where r: "update_product_quantity_in_cart shop_alice alice ''p1'' (Fin 4) =
        Inr (''Product quantity updated successfully.'', fs')"
    and g': "get_cart fs' alice = Inr ((hd (carts shop_alice))\<lparr>products := (products (hd (carts shop_alice)))(''p1'' \<mapsto>
                        \<lparr>item_id = item_id \<lparr>item_id = ''p1'', item_price = Fin 8, quantity = Fin 1\<rparr>,
                         item_price = item_price \<lparr>item_id = ''p1'', item_price = Fin 8, quantity = Fin 1\<rparr>,
                         quantity = Fin 4\<rparr>)\<rparr>)"
    by blast
  from r g' have w6: "cart_line (after shop_alice (update_product_quantity_in_cart shop_alice alice ''p1'' (Fin 4))) alice ''p1'' =
     Some \<lparr>item_id = ''p1'', item_price = Fin 8, quantity = Fin 4\<rparr>"
    by (simp add: after_def cart_line_def)
  have cl: "cart_line shop_alice alice ''p1'' = Some \<lparr>item_id = ''p1'', item_price = Fin 8, quantity = Fin 1\<rparr>"
    using g l1 by (simp add: cart_line_def)
  have cw: "cart_line shop_with_cart alice ''p1'' = None" using gw lw by (simp add: cart_line_def)
  from a b v1 v2 v3 n4 n6 gb w1 cw w2 vt clt ct wt c2 w3 c3 f w4 c1 s6 w5 s4 cl w6 show ?thesis by blast
qed

text \<open>
  Claim C7, amended. A call of \<^verbatim>\<open>add_product_to_cart\<close> or of
  \<^verbatim>\<open>update_product_quantity_in_cart\<close> by an authenticated caller with a quantity that is
  not above zero (zero, a negative number, or NaN) fails with \<^verbatim>\<open>invalid-argument\<close> and
  leaves the database as it was. \<^verbatim>\<open>validatePositiveNumberField\<close> accepts exactly the
  numbers above zero, integers or not. In the HTTP revision,
  \<^verbatim>\<open>validatePositiveNonZeroNumberField\<close> refuses every number that is at most zero with
  status 400 and accepts every finite number above zero, integer or not.
\<close>

theorem C7_quantity_not_positive:
  "(checkAuth auth = Inr u \<and> \<not> js_gt qty (Fin 0) \<longrightarrow>
      (\<exists>m. add_product_to_cart fs auth pid qty = Inl (HttpsError invalid_argument m)) \<and>
      after fs (add_product_to_cart fs auth pid qty) = fs \<and>
      (\<exists>m. update_product_quantity_in_cart fs auth pid qty = Inl (HttpsError invalid_argument m)) \<and>
      after fs (update_product_quantity_in_cart fs auth pid qty) = fs) \<and>
   (validatePositiveNumberField qty ''Quantity'' = Inr ()) = js_gt qty (Fin 0) \<and>
   (js_le qty (Fin 0) \<longrightarrow>
      validatePositiveNonZeroNumberField (JNumber qty) ''Quantity'' =
        Inl (HTTPError ''Quantity must be a positive non-zero number'' 400)) \<and>
   (js_gt qty (Fin 0) \<and> qty \<noteq> PosInf \<longrightarrow>
      validatePositiveNonZeroNumberField (JNumber qty) ''Quantity'' = Inr ())"
proof -
  have 1: "checkAuth auth = Inr u \<and> \<not> js_gt qty (Fin 0) \<longrightarrow>
      (\<exists>m. add_product_to_cart fs auth pid qty = Inl (HttpsError invalid_argument m)) \<and>
      after fs (add_product_to_cart fs auth pid qty) = fs \<and>
      (\<exists>m. update_product_quantity_in_cart fs auth pid qty = Inl (HttpsError invalid_argument m)) \<and>
      after fs (update_product_quantity_in_cart fs auth pid qty) = fs"
    using quantity_not_positive_add [of auth u qty fs pid]
      quantity_not_positive_update [of auth u qty fs pid]
    by (auto simp: after_def)
  have 2: "(validatePositiveNumberField qty ''Quantity'' = Inr ()) = js_gt qty (Fin 0)"
    by (rule validatePositiveNumberField_iff)
  have 3: "js_le qty (Fin 0) \<longrightarrow>
      validatePositiveNonZeroNumberField (JNumber qty) ''Quantity'' =
        Inl (HTTPError ''Quantity must be a positive non-zero number'' 400)"
    using validatePositiveNonZeroNumberField_rejects [of qty "''Quantity''"] by simp
  have 4: "js_gt qty (Fin 0) \<and> qty \<noteq> PosInf \<longrightarrow>
      validatePositiveNonZeroNumberField (JNumber qty) ''Quantity'' = Inr ()"
    using validatePositiveNonZeroNumberField_accepts [of qty "''Quantity''"] by simp
  from 1 2 3 4 show ?thesis by blast
qed

theorem C7_quantity_not_positive_witness:
  "checkAuth alice = Inr ''alice'' \<and> \<not> js_gt (Fin (- 1)) (Fin 0) \<and> \<not> js_gt (Fin 0) (Fin 0) \<and>
   \<not> js_gt NaN (Fin 0) \<and> js_le (Fin (- 1)) (Fin 0) \<and> js_gt (Fin (5 / 2)) (Fin 0) \<and>
   isl (add_product_to_cart shop alice ''p1'' (Fin (- 1))) \<and>
   isl (add_product_to_cart shop alice ''p1'' (Fin 0)) \<and>
   isl (add_product_to_cart shop alice ''p1'' NaN) \<and>
   isl (update_product_quantity_in_cart shop_alice alice ''p1'' (Fin 0)) \<and>
   after shop_alice (update_product_quantity_in_cart shop_alice alice ''p1'' (Fin 0)) = shop_alice \<and>
   validatePositiveNumberField (Fin (5 / 2)) ''Quantity'' = Inr () \<and>
   validatePositiveNonZeroNumberField (JNumber (Fin (- 1))) ''Quantity'' =
     Inl (HTTPError ''Quantity must be a positive non-zero number'' 400) \<and>
   validatePositiveNonZeroNumberField (JNumber (Fin (5 / 2))) ''Quantity'' = Inr ()"
proof -
  have a: "checkAuth alice = Inr ''alice''" by (simp add: checkAuth_def alice_def)
  have n: "\<not> js_gt (Fin (- 1)) (Fin 0)" "\<not> js_gt (Fin 0) (Fin 0)" "\<not> js_gt NaN (Fin 0)"
    "js_le (Fin (- 1)) (Fin 0)" "js_gt (Fin (5 / 2)) (Fin 0)" "Fin (5 / 2) \<noteq> PosInf"
    by (simp_all add: js_gt_def)
  from C7_quantity_not_positive [of alice "''alice''" "Fin (- 1)" shop "''p1''"] a n
  have 1: "isl (add_product_to_cart shop alice ''p1'' (Fin (- 1)))"
    and 2: "validatePositiveNonZeroNumberField (JNumber (Fin (- 1))) ''Quantity'' =
       Inl (HTTPError ''Quantity must be a positive non-zero number'' 400)"
    by auto
  from C7_quantity_not_positive [of alice "''alice''" "Fin 0" shop "''p1''"] a n
  have 3: "isl (add_product_to_cart shop alice ''p1'' (Fin 0))" by auto
  from C7_quantity_not_positive [of alice "''alice''" NaN shop "''p1''"] a n
  have 4: "isl (add_product_to_cart shop alice ''p1'' NaN)" by auto
  from C7_quantity_not_positive [of alice "''alice''" "Fin 0" shop_alice "''p1''"] a n
  have 5: "isl (update_product_quantity_in_cart shop_alice alice ''p1'' (Fin 0))"
    and 6: "after shop_alice (update_product_quantity_in_cart shop_alice alice ''p1'' (Fin 0)) = shop_alice"
    by auto
  from C7_quantity_not_positive [of alice "''alice''" "Fin (5 / 2)" shop "''p1''"] n
  have 7: "validatePositiveNumberField (Fin (5 / 2)) ''Quantity'' = Inr ()"
    and 8: "validatePositiveNonZeroNumberField (JNumber (Fin (5 / 2))) ''Quantity'' = Inr ()"
    by blast+
  from a n 1 2 3 4 5 6 7 8 show ?thesis by blast
qed

text \<open>
  The claim as it is stated, with every quantity that is not a positive integer refused,
  fails: the quantity \<open>5 / 2\<close> is not an integer, and both handlers accept it and store
  it, as does the validator of the HTTP revision.
\<close>

theorem C7_quantity_counterexample:
  "\<not> js_is_integer (Fin (5 / 2)) \<and>
   add_product_to_cart shop alice ''p1'' (Fin (5 / 2)) =
     Inr (''Product added to cart successfully'',
          after shop (add_product_to_cart shop alice ''p1'' (Fin (5 / 2)))) \<and>
   cart_line (after shop (add_product_to_cart shop alice ''p1'' (Fin (5 / 2)))) alice ''p1'' =
     Some \<lparr>item_id = ''p1'', item_price = Fin 10, quantity = Fin (5 / 2)\<rparr> \<and>
   update_product_quantity_in_cart shop_alice alice ''p1'' (Fin (5 / 2)) =
     Inr (''Product quantity updated successfully.'',
          after shop_alice (update_product_quantity_in_cart shop_alice alice ''p1'' (Fin (5 / 2)))) \<and>
   cart_line (after shop_alice (update_product_quantity_in_cart shop_alice alice ''p1'' (Fin (5 / 2))))
     alice ''p1'' = Some \<lparr>item_id = ''p1'', item_price = Fin 8, quantity = Fin (5 / 2)\<rparr> \<and>
   validatePositiveNonZeroNumberField (JNumber (Fin (5 / 2))) ''Quantity'' = Inr ()"
proof -
  have "\<lfloor>5 / 2 :: rat\<rfloor> = 2" by (simp add: floor_eq_iff)
  then have "\<not> js_is_integer (Fin (5 / 2))" by (simp add: js_is_integer_def)
  then show ?thesis
    by (simp add: add_product_to_cart_def update_product_quantity_in_cart_def
        write_cart_line_def after_def cart_line_def get_cart_def
        validatePositiveNonZeroNumberField_def validateNumberField_def handler_defs example_defs)
qed

text \<open>
  Claim C8, amended. \<^verbatim>\<open>update_product\<close> and \<^verbatim>\<open>remove_product\<close>, called for an existing
  product by an authenticated caller who is not its owner, fail with
  \<^verbatim>\<open>permission-denied\<close>; called by the owner they succeed (\<^verbatim>\<open>update_product\<close> when
  at least one field is given). \<^verbatim>\<open>update_product_quantity_in_cart\<close> and
  \<^verbatim>\<open>remove_product_from_cart\<close> never fail with \<^verbatim>\<open>permission-denied\<close>: their requests
  name no cart, they work on the caller's own pending cart, and they leave the pending carts
  of every other owner as they were.
\<close>

theorem C8_ownership:
  "(checkAuth auth = Inr u \<and> validateEmptyStringField pid ''Product ID'' = Inr () \<and>
    catalog fs pid = Some pd \<longrightarrow>
      (owner pd \<noteq> u \<longrightarrow>
         update_product fs auth pid upd =
           Inl (HttpsError permission_denied ''You are not the owner of this product.'') \<and>
         remove_product fs auth pid =
           Inl (HttpsError permission_denied ''You are not the owner of this product.'')) \<and>
      (owner pd = u \<longrightarrow>
         remove_product fs auth pid =
           Inr (''Product removed successfully.'', fs\<lparr>catalog := (catalog fs)(pid := None)\<rparr>) \<and>
         (\<not> no_updates upd \<longrightarrow>
            update_product fs auth pid upd =
              Inr (''Product updated successfully.'',
                   fs\<lparr>catalog := (catalog fs)(pid \<mapsto> apply_updates upd pd)\<rparr>)))) \<and>
   (\<forall>e. update_product_quantity_in_cart fs auth pid qty = Inl e \<longrightarrow> code e \<noteq> permission_denied) \<and>
   (\<forall>e. remove_product_from_cart fs auth pid = Inl e \<longrightarrow> code e \<noteq> permission_denied) \<and>
   (checkAuth auth = Inr u \<and> u' \<noteq> u \<longrightarrow>
      getCurrentPendingCartRef (after fs (update_product_quantity_in_cart fs auth pid qty)) u' =
        getCurrentPendingCartRef fs u' \<and>
      getCurrentPendingCartRef (after fs (remove_product_from_cart fs auth pid)) u' =
        getCurrentPendingCartRef fs u')"
proof -
  have 1: "checkAuth auth = Inr u \<and> validateEmptyStringField pid ''Product ID'' = Inr () \<and>
    catalog fs pid = Some pd \<longrightarrow>
      (owner pd \<noteq> u \<longrightarrow>
         update_product fs auth pid upd =
           Inl (HttpsError permission_denied ''You are not the owner of this product.'') \<and>
         remove_product fs auth pid =
           Inl (HttpsError permission_denied ''You are not the owner of this product.'')) \<and>
      (owner pd = u \<longrightarrow>
         remove_product fs auth pid =
           Inr (''Product removed successfully.'', fs\<lparr>catalog := (catalog fs)(pid := None)\<rparr>) \<and>
         (\<not> no_updates upd \<longrightarrow>
            update_product fs auth pid upd =
              Inr (''Product updated successfully.'',
                   fs\<lparr>catalog := (catalog fs)(pid \<mapsto> apply_updates upd pd)\<rparr>)))"
    using update_product_eq [of auth u pid fs pd upd] remove_product_eq [of auth u pid fs pd]
    by simp
  have 2: "\<forall>e. update_product_quantity_in_cart fs auth pid qty = Inl e \<longrightarrow> code e \<noteq> permission_denied"
    using update_product_quantity_in_cart_not_denied by blast
  have 3: "\<forall>e. remove_product_from_cart fs auth pid = Inl e \<longrightarrow> code e \<noteq> permission_denied"
    using remove_product_from_cart_not_denied by blast
  have 4: "checkAuth auth = Inr u \<and> u' \<noteq> u \<longrightarrow>
      getCurrentPendingCartRef (after fs (update_product_quantity_in_cart fs auth pid qty)) u' =
        getCurrentPendingCartRef fs u' \<and>
      getCurrentPendingCartRef (after fs (remove_product_from_cart fs auth pid)) u' =
        getCurrentPendingCartRef fs u'"
    using update_product_quantity_in_cart_others [of auth u u' fs pid qty]
      remove_product_from_cart_others [of auth u u' fs pid]
    by blast
  from 1 2 3 4 show ?thesis by blast
qed

theorem C8_ownership_witness:
  "checkAuth seller = Inr ''seller'' \<and> checkAuth bob = Inr ''bob'' \<and>
   validateEmptyStringField ''p1'' ''Product ID'' = Inr () \<and>
   catalog shop_alice ''p1'' = Some civic \<and> owner civic = ''seller'' \<and> owner civic \<noteq> ''bob'' \<and>
   \<not> no_updates new_price_11 \<and> ''alice'' \<noteq> ''bob'' \<and>
   update_product shop_alice bob ''p1'' new_price_11 =
     Inl (HttpsError permission_denied ''You are not the owner of this product.'') \<and>
   remove_product shop_alice bob ''p1'' =
     Inl (HttpsError permission_denied ''You are not the owner of this product.'') \<and>
   \<not> isl (update_product shop_alice seller ''p1'' new_price_11) \<and>
   \<not> isl (remove_product shop_alice seller ''p1'') \<and>
   update_product_quantity_in_cart shop_alice bob ''p1'' (Fin 2) =
     Inl (HttpsError not_found ''No pending cart found for this user'') \<and>
   code (HttpsError not_found ''No pending cart found for this user'') \<noteq> permission_denied \<and>
   remove_product_from_cart shop_alice bob ''p1'' =
     Inl (HttpsError not_found ''No pending cart found for this user'') \<and>
   getCurrentPendingCartRef (after shop_alice (remove_product_from_cart shop_alice bob ''p1'')) ''alice'' =
     getCurrentPendingCartRef shop_alice ''alice'' \<and>
   getCurrentPendingCartRef (after shop_alice (update_product_quantity_in_cart shop_alice bob ''p1'' (Fin 2))) ''alice'' =
     getCurrentPendingCartRef shop_alice ''alice''"
proof -
  have s: "checkAuth seller = Inr ''seller''" and b: "checkAuth bob = Inr ''bob''"
    by (simp_all add: checkAuth_def seller_def bob_def)
  have v: "validateEmptyStringField ''p1'' ''Product ID'' = Inr ()"
    by (simp add: validateEmptyStringField_def trim_def is_white_space_def)
  have c: "catalog shop_alice ''p1'' = Some civic" by (simp add: shop_alice_def)
  have f: "owner civic = ''seller''" "owner civic \<noteq> ''bob''" "\<not> no_updates new_price_11"
    "''alice'' \<noteq> ''bob''"
    by (simp_all add: civic_def no_updates_def new_price_11_def)
  have r1: "update_product_quantity_in_cart shop_alice bob ''p1'' (Fin 2) =
     Inl (HttpsError not_found ''No pending cart found for this user'')"
    and r2: "remove_product_from_cart shop_alice bob ''p1'' =
     Inl (HttpsError not_found ''No pending cart found for this user'')"
    by (simp_all add: update_product_quantity_in_cart_def remove_product_from_cart_def
        handler_defs example_defs)
  note w = C8_ownership [of bob "''bob''" "''p1''" shop_alice civic new_price_11 "Fin 2" "''alice''"]
  note w' = C8_ownership [of seller "''seller''" "''p1''" shop_alice civic new_price_11 "Fin 2" "''alice''"]
  from w b v c f
  have 1: "update_product shop_alice bob ''p1'' new_price_11 =
     Inl (HttpsError permission_denied ''You are not the owner of this product.'')"
    and 2: "remove_product shop_alice bob ''p1'' =
     Inl (HttpsError permission_denied ''You are not the owner of this product.'')"
    by blast+
  from w' s v c f
  have 3: "\<not> isl (update_product shop_alice seller ''p1'' new_price_11)"
    and 4: "\<not> isl (remove_product shop_alice seller ''p1'')"
    by auto
  from w r1 have 5: "code (HttpsError not_found ''No pending cart found for this user'') \<noteq> permission_denied"
    by blast
  from w b f
  have 6: "getCurrentPendingCartRef (after shop_alice (remove_product_from_cart shop_alice bob ''p1'')) ''alice'' =
     getCurrentPendingCartRef shop_alice ''alice''"
    and 7: "getCurrentPendingCartRef (after shop_alice (update_product_quantity_in_cart shop_alice bob ''p1'' (Fin 2))) ''alice'' =
     getCurrentPendingCartRef shop_alice ''alice''"
    by blast+
  from s b v c f r1 r2 1 2 3 4 5 6 7 show ?thesis by blast
qed

text \<open>
  The claim as it is stated, with \<^verbatim>\<open>permission-denied\<close> for a caller who is not the owner of
  the cart, fails: Alice's pending cart holds \<open>p1\<close>, and Bob, who is not its owner and
  has no cart of his own, calls the two cart handlers for \<open>p1\<close>. Both fail with
  \<^verbatim>\<open>not-found\<close>; neither request can name Alice's cart.
\<close>

theorem C8_ownership_counterexample:
  "cart_line shop_alice alice ''p1'' = Some \<lparr>item_id = ''p1'', item_price = Fin 8, quantity = Fin 1\<rparr> \<and>
   checkAuth bob = Inr ''bob'' \<and>
   cart_owner (hd (carts shop_alice)) = ''alice'' \<and>
   update_product_quantity_in_cart shop_alice bob ''p1'' (Fin 2) =
     Inl (HttpsError not_found ''No pending cart found for this user'') \<and>
   remove_product_from_cart shop_alice bob ''p1'' =
     Inl (HttpsError not_found ''No pending cart found for this user'') \<and>
   not_found \<noteq> permission_denied"
  by (simp add: update_product_quantity_in_cart_def remove_product_from_cart_def
      cart_line_def get_cart_def handler_defs example_defs)

text \<open>
  Claim C9. \<^verbatim>\<open>remove_product_from_cart\<close>, called by an authenticated caller with a product
  ID that passes validation: whenever the caller's pending cart has an entry for the product
  the call succeeds and the key is gone from the cart, all other entries being as before.
  It fails only with \<^verbatim>\<open>not-found\<close>, and only when the caller has no pending cart or the
  pending cart has no entry for the product. With no pending cart it always fails. With a
  pending cart that has no entry for the product it fails, unless the product ID is the name
  of a property that every object inherits (the test of the handler is a property read):
  then it succeeds and leaves the cart as it was. The catalog is not consulted: with any
  other catalog in place of the database's, one in which the product does not exist
  included, the outcome is the same.
\<close>

theorem C9_remove_line:
  assumes "checkAuth auth = Inr u"
    and "validateEmptyStringField pid ''Product ID'' = Inr ()"
  shows "(\<forall>c l. get_cart fs auth = Inr c \<and> products c pid = Some l \<longrightarrow>
            (\<exists>fs'. remove_product_from_cart fs auth pid =
                     Inr (''Product removed from cart successfully'', fs') \<and>
                   get_cart fs' auth = Inr (c\<lparr>products := (products c)(pid := None)\<rparr>) \<and>
                   catalog fs' = catalog fs)) \<and>
         (\<forall>e. remove_product_from_cart fs auth pid = Inl e \<longrightarrow>
            code e = not_found \<and>
            (isl (get_cart fs auth) \<or> (\<exists>c. get_cart fs auth = Inr c \<and> products c pid = None))) \<and>
         (isl (get_cart fs auth) \<longrightarrow>
            remove_product_from_cart fs auth pid =
              Inl (HttpsError not_found ''No pending cart found for this user'')) \<and>
         (\<forall>c. get_cart fs auth = Inr c \<and> products c pid = None \<and>
              pid \<notin> set object_prototype_names \<longrightarrow>
            remove_product_from_cart fs auth pid =
              Inl (HttpsError not_found ''Product not found in the cart'')) \<and>
         (\<forall>c. get_cart fs auth = Inr c \<and> products c pid = None \<and>
              pid \<in> set object_prototype_names \<longrightarrow>
            (\<exists>fs'. remove_product_from_cart fs auth pid =
                     Inr (''Product removed from cart successfully'', fs') \<and>
                   get_cart fs' auth = Inr c \<and> catalog fs' = catalog fs)) \<and>
         (\<forall>m. remove_product_from_cart (fs\<lparr>catalog := m\<rparr>) auth pid =
            (case remove_product_from_cart fs auth pid of
               Inl e \<Rightarrow> Inl e
             | Inr (msg, fs') \<Rightarrow> Inr (msg, fs'\<lparr>catalog := m\<rparr>)))"
proof -
  note cs = remove_product_from_cart_cases [OF assms, of fs]
  have 1: "\<forall>c l. get_cart fs auth = Inr c \<and> products c pid = Some l \<longrightarrow>
            (\<exists>fs'. remove_product_from_cart fs auth pid =
                     Inr (''Product removed from cart successfully'', fs') \<and>
                   get_cart fs' auth = Inr (c\<lparr>products := (products c)(pid := None)\<rparr>) \<and>
                   catalog fs' = catalog fs)"
  proof (intro allI impI)
    fix c l assume h: "get_cart fs auth = Inr c \<and> products c pid = Some l"
    from h have p: "has_property (products c) pid" by (simp add: has_property_own)
    from h have g: "get_cart fs auth = Inr c" by (rule conjunct1)
    show "\<exists>fs'. remove_product_from_cart fs auth pid =
                     Inr (''Product removed from cart successfully'', fs') \<and>
                   get_cart fs' auth = Inr (c\<lparr>products := (products c)(pid := None)\<rparr>) \<and>
                   catalog fs' = catalog fs"
      by (rule cs(3) [OF g p])
  qed
  have 2: "\<forall>e. remove_product_from_cart fs auth pid = Inl e \<longrightarrow>
            code e = not_found \<and>
            (isl (get_cart fs auth) \<or> (\<exists>c. get_cart fs auth = Inr c \<and> products c pid = None))"
    by (intro allI impI) (rule remove_product_from_cart_fails [OF assms])
  have 4: "\<forall>c. get_cart fs auth = Inr c \<and> products c pid = None \<and>
              pid \<notin> set object_prototype_names \<longrightarrow>
            remove_product_from_cart fs auth pid =
              Inl (HttpsError not_found ''Product not found in the cart'')"
  proof (intro allI impI)
    fix c assume h: "get_cart fs auth = Inr c \<and> products c pid = None \<and>
              pid \<notin> set object_prototype_names"
    from h have p: "\<not> has_property (products c) pid" by (simp add: has_property_none)
    from h have g: "get_cart fs auth = Inr c" by (rule conjunct1)
    show "remove_product_from_cart fs auth pid =
              Inl (HttpsError not_found ''Product not found in the cart'')"
      by (rule cs(2) [OF g p])
  qed
  have 5: "\<forall>c. get_cart fs auth = Inr c \<and> products c pid = None \<and>
              pid \<in> set object_prototype_names \<longrightarrow>
            (\<exists>fs'. remove_product_from_cart fs auth pid =
                     Inr (''Product removed from cart successfully'', fs') \<and>
                   get_cart fs' auth = Inr c \<and> catalog fs' = catalog fs)"
  proof (intro allI impI)
    fix c assume h: "get_cart fs auth = Inr c \<and> products c pid = None \<and>
              pid \<in> set object_prototype_names"
    from h have p: "has_property (products c) pid" by (simp add: has_property_none)
    from h have gc: "get_cart fs auth = Inr c" by (rule conjunct1)
    from cs(3) [OF gc p] obtain fs' where
      r: "remove_product_from_cart fs auth pid = Inr (''Product removed from cart successfully'', fs')"
      and g: "get_cart fs' auth = Inr (c\<lparr>products := (products c)(pid := None)\<rparr>)"
      and k: "catalog fs' = catalog fs" by (elim exE conjE)
    from h have "(products c)(pid := None) = products c" by (simp add: fun_upd_idem)
    with g have g2: "get_cart fs' auth = Inr c" by simp
    show "\<exists>fs'. remove_product_from_cart fs auth pid =
                     Inr (''Product removed from cart successfully'', fs') \<and>
                   get_cart fs' auth = Inr c \<and> catalog fs' = catalog fs"
      by (rule exI [of _ fs']) (intro conjI r g2 k)
  qed
  have 6: "\<forall>m. remove_product_from_cart (fs\<lparr>catalog := m\<rparr>) auth pid =
            (case remove_product_from_cart fs auth pid of
               Inl e \<Rightarrow> Inl e
             | Inr (msg, fs') \<Rightarrow> Inr (msg, fs'\<lparr>catalog := m\<rparr>))"
    by (intro allI) (rule remove_product_from_cart_catalog)
  show ?thesis by (intro conjI 1 2 cs(1) 4 5 6)
qed

theorem C9_remove_line_witness:
  "checkAuth alice = Inr ''alice'' \<and> checkAuth bob = Inr ''bob'' \<and>
   validateEmptyStringField ''p2'' ''Product ID'' = Inr () \<and>
   validateEmptyStringField ''p1'' ''Product ID'' = Inr () \<and>
   catalog shop_alice ''p2'' = None \<and>
   cart_line shop_alice alice ''p2'' = Some \<lparr>item_id = ''p2'', item_price = Fin 3, quantity = Fin 2\<rparr> \<and>
   \<not> isl (remove_product_from_cart shop_alice alice ''p2'') \<and>
   cart_line (after shop_alice (remove_product_from_cart shop_alice alice ''p2'')) alice ''p2'' = None \<and>
   cart_line (after shop_alice (remove_product_from_cart shop_alice alice ''p2'')) alice ''p1'' =
     cart_line shop_alice alice ''p1'' \<and>
   isl (get_cart shop_alice bob) \<and>
   remove_product_from_cart shop_alice bob ''p1'' =
     Inl (HttpsError not_found ''No pending cart found for this user'') \<and>
   cart_line shop_with_cart alice ''p1'' = None \<and>
   remove_product_from_cart shop_with_cart alice ''p1'' =
     Inl (HttpsError not_found ''Product not found in the cart'') \<and>
   \<not> isl (remove_product_from_cart (shop_alice\<lparr>catalog := Map.empty\<rparr>) alice ''p1'') \<and>
   validateEmptyStringField ''constructor'' ''Product ID'' = Inr () \<and>
   cart_line shop_with_cart alice ''constructor'' = None \<and>
   \<not> isl (remove_product_from_cart shop_with_cart alice ''constructor'') \<and>
   get_cart (after shop_with_cart (remove_product_from_cart shop_with_cart alice ''constructor'')) alice =
     get_cart shop_with_cart alice \<and>
   code (HttpsError not_found ''Product not found in the cart'') = not_found"
proof -
  have a: "checkAuth alice = Inr ''alice''" and b: "checkAuth bob = Inr ''bob''"
    by (simp_all add: checkAuth_def alice_def bob_def)
  have v2: "validateEmptyStringField ''p2'' ''Product ID'' = Inr ()"
    and v1: "validateEmptyStringField ''p1'' ''Product ID'' = Inr ()"
    by (simp_all add: validateEmptyStringField_def trim_def is_white_space_def)
  have n: "catalog shop_alice ''p2'' = None" by (simp add: shop_alice_def)
  have g: "get_cart shop_alice alice = Inr (hd (carts shop_alice))"
    by (simp add: get_cart_def andThen_def checkAuth_def alice_def getCurrentPendingCartRef_def shop_alice_def)
  have l2: "products (hd (carts shop_alice)) ''p2'' = Some \<lparr>item_id = ''p2'', item_price = Fin 3, quantity = Fin 2\<rparr>"
    and l1: "products (hd (carts shop_alice)) ''p1'' = Some \<lparr>item_id = ''p1'', item_price = Fin 8, quantity = Fin 1\<rparr>"
    by (simp_all add: shop_alice_def)
  have gb: "isl (get_cart shop_alice bob)"
    by (simp add: get_cart_def andThen_def checkAuth_def bob_def getCurrentPendingCartRef_def shop_alice_def)
  have gw: "get_cart shop_with_cart alice = Inr (hd (carts shop_with_cart))"
    by (simp add: get_cart_def andThen_def checkAuth_def alice_def getCurrentPendingCartRef_def shop_with_cart_def)
  have lw: "products (hd (carts shop_with_cart)) ''p1'' = None" by (simp add: shop_with_cart_def)
  have vc: "validateEmptyStringField ''constructor'' ''Product ID'' = Inr ()"
    by (simp add: validateEmptyStringField_def trim_def is_white_space_def)
  have lc: "products (hd (carts shop_with_cart)) ''constructor'' = None" by (simp add: shop_with_cart_def)
  have ic: "''constructor'' \<in> set object_prototype_names" by (simp add: object_prototype_names_def)
  have np: "''p1'' \<notin> set object_prototype_names" by (simp add: object_prototype_names_def)
  note A = C9_remove_line [OF a v2, of shop_alice]
  from A [THEN conjunct1, rule_format, OF conjI [OF g l2]] obtain fs' where
    r: "remove_product_from_cart shop_alice alice ''p2'' = Inr (''Product removed from cart successfully'', fs')"
    and g': "get_cart fs' alice = Inr ((hd (carts shop_alice))\<lparr>products := (products (hd (carts shop_alice)))(''p2'' := None)\<rparr>)"
    by (elim exE conjE)
  from r g' g l1
  have w1a: "\<not> isl (remove_product_from_cart shop_alice alice ''p2'')"
    and w1b: "cart_line (after shop_alice (remove_product_from_cart shop_alice alice ''p2'')) alice ''p2'' = None"
    and w1c: "cart_line (after shop_alice (remove_product_from_cart shop_alice alice ''p2'')) alice ''p1'' =
     cart_line shop_alice alice ''p1''"
    by (simp_all add: after_def cart_line_def)
  note B = C9_remove_line [OF b v1, of shop_alice]
  have w2: "remove_product_from_cart shop_alice bob ''p1'' =
     Inl (HttpsError not_found ''No pending cart found for this user'')"
    by (rule B [THEN conjunct2, THEN conjunct2, THEN conjunct1, rule_format, OF gb])
  note C = C9_remove_line [OF a v1, of shop_with_cart]
  have w3: "remove_product_from_cart shop_with_cart alice ''p1'' =
     Inl (HttpsError not_found ''Product not found in the cart'')"
    by (rule C [THEN conjunct2, THEN conjunct2, THEN conjunct2, THEN conjunct1, rule_format,
          OF conjI [OF gw conjI [OF lw np]]])
  note D = C9_remove_line [OF a v1, of shop_alice]
  from D [THEN conjunct1, rule_format, OF conjI [OF g l1]] obtain fs2 where
    r2: "remove_product_from_cart shop_alice alice ''p1'' = Inr (''Product removed from cart successfully'', fs2)"
    by (elim exE conjE)
  from D [THEN conjunct2, THEN conjunct2, THEN conjunct2, THEN conjunct2, THEN conjunct2, THEN spec,
      of Map.empty] r2
  have w4: "\<not> isl (remove_product_from_cart (shop_alice\<lparr>catalog := Map.empty\<rparr>) alice ''p1'')"
    by simp
  have c2: "cart_line shop_alice alice ''p2'' = Some \<lparr>item_id = ''p2'', item_price = Fin 3, quantity = Fin 2\<rparr>"
    using g l2 by (simp add: cart_line_def)
  have cw: "cart_line shop_with_cart alice ''p1'' = None" using gw lw by (simp add: cart_line_def)
  note E = C9_remove_line [OF a vc, of shop_with_cart]
  from E [THEN conjunct2, THEN conjunct2, THEN conjunct2, THEN conjunct2, THEN conjunct1, rule_format,
      OF conjI [OF gw conjI [OF lc ic]]] obtain fs3 where
    "remove_product_from_cart shop_with_cart alice ''constructor'' =
       Inr (''Product removed from cart successfully'', fs3)"
    "get_cart fs3 alice = Inr (hd (carts shop_with_cart))"
    by (elim exE conjE)
  with gw
  have w5a: "\<not> isl (remove_product_from_cart shop_with_cart alice ''constructor'')"
    and w5b: "get_cart (after shop_with_cart (remove_product_from_cart shop_with_cart alice ''constructor'')) alice =
      get_cart shop_with_cart alice"
    by (simp_all add: after_def)
  have w6: "code (HttpsError not_found ''Product not found in the cart'') = not_found"
    by (rule C [THEN conjunct2, THEN conjunct1, rule_format, OF w3, THEN conjunct1])
  have cc: "cart_line shop_with_cart alice ''constructor'' = None" using gw lc by (simp add: cart_line_def)
  show ?thesis by (intro conjI a b v2 v1 n c2 w1a w1b w1c gb w2 cw w3 w4 vc cc w5a w5b w6)
qed

text \<open>
  Claim C10. \<^verbatim>\<open>get_product_by_id\<close>, called by an authenticated caller for a product that
  exists: an inactive product is returned to its owner; for a caller who is not its owner an
  inactive product fails with \<^verbatim>\<open>unavailable\<close>; an active product is returned to every
  caller.
\<close>

theorem C10_get_product_by_id:
  assumes "checkAuth auth = Inr u"
    and "validateEmptyStringField pid ''Product ID'' = Inr ()"
    and "catalog fs pid = Some pd"
  shows "(\<not> active pd \<and> owner pd = u \<longrightarrow> get_product_by_id fs auth pid = Inr (pid, pd)) \<and>
         (\<not> active pd \<and> owner pd \<noteq> u \<longrightarrow>
            get_product_by_id fs auth pid =
              Inl (HttpsError unavailable ''This product is currently unavailable'')) \<and>
         (active pd \<longrightarrow> get_product_by_id fs auth pid = Inr (pid, pd))"
  using get_product_by_id_eq [OF assms] by simp


theorem C10_get_product_by_id_witness:
  "checkAuth seller = Inr ''seller'' \<and> checkAuth alice = Inr ''alice'' \<and>
   validateEmptyStringField ''p3'' ''Product ID'' = Inr () \<and>
   validateEmptyStringField ''p1'' ''Product ID'' = Inr () \<and>
   catalog shop ''p3'' = Some accord \<and> catalog shop ''p1'' = Some civic \<and>
   \<not> active accord \<and> owner accord = ''seller'' \<and> owner accord \<noteq> ''alice'' \<and> active civic \<and>
   get_product_by_id shop seller ''p3'' = Inr (''p3'', accord) \<and>
   get_product_by_id shop alice ''p3'' =
     Inl (HttpsError unavailable ''This product is currently unavailable'') \<and>
   get_product_by_id shop alice ''p1'' = Inr (''p1'', civic)"
proof -
  have s: "checkAuth seller = Inr ''seller''" and a: "checkAuth alice = Inr ''alice''"
    by (simp_all add: checkAuth_def seller_def alice_def)
  have v3: "validateEmptyStringField ''p3'' ''Product ID'' = Inr ()"
    and v1: "validateEmptyStringField ''p1'' ''Product ID'' = Inr ()"
    by (simp_all add: validateEmptyStringField_def trim_def is_white_space_def)
  have c3: "catalog shop ''p3'' = Some accord" and c1: "catalog shop ''p1'' = Some civic"
    by (simp_all add: shop_def)
  have f: "\<not> active accord" "owner accord = ''seller''" "owner accord \<noteq> ''alice''" "active civic"
    by (simp_all add: accord_def civic_def)
  from C10_get_product_by_id [OF s v3 c3] f
  have r1: "get_product_by_id shop seller ''p3'' = Inr (''p3'', accord)" by blast
  from C10_get_product_by_id [OF a v3 c3] f
  have r2: "get_product_by_id shop alice ''p3'' =
     Inl (HttpsError unavailable ''This product is currently unavailable'')" by blast
  from C10_get_product_by_id [OF a v1 c1] f
  have r3: "get_product_by_id shop alice ''p1'' = Inr (''p1'', civic)" by blast
  from s a v3 v1 c3 c1 f r1 r2 r3 show ?thesis by blast
qed


end
